theory Spec2Isabelle
  imports Main "HOL-Library.AList"
begin

section \<open>Python values used by \<^verbatim>\<open>asmlib/call.py\<close>\<close>

text \<open>
  Strings are \<^typ>\<open>string\<close>; the separators the code splits and joins on are ASCII, so
  splitting a byte string and splitting the text it encodes give the same pieces.
  Integers are Python's unbounded integers, \<^typ>\<open>int\<close>.
\<close>

text \<open>\<^verbatim>\<open>s.split(c)\<close> for a one-character separator: the result is never empty, an empty
  string gives one empty piece, and two adjacent separators give an empty piece.\<close>

fun str_split :: "char \<Rightarrow> string \<Rightarrow> string list" where
  "str_split c [] = [[]]"
| "str_split c (x # xs) =
     (if x = c then [] # str_split c xs
      else (case str_split c xs of
              [] \<Rightarrow> [[x]]
            | w # ws \<Rightarrow> (x # w) # ws))"

text \<open>\<^verbatim>\<open>delim.join(parts)\<close>.\<close>

fun str_join :: "string \<Rightarrow> string list \<Rightarrow> string" where
  "str_join d [] = []"
| "str_join d [x] = x"
| "str_join d (x # y # ys) = x @ d @ str_join d (y # ys)"

text \<open>
  A value in a table or an index: a string, an integer, or the missing marker
  \<^verbatim>\<open>numpy.nan\<close>.
\<close>

datatype cell = Str string | Num int | NaN

text \<open>The exceptions the functions raise. \<^verbatim>\<open>RuntimeError\<close> carries what the message
  of the source reports.\<close>

datatype runtime_message =
    Unrecognized_TIG_REGION cell string
      \<comment> \<open>\<^verbatim>\<open>'Unrecognized TIG_REGION format for record {}: {}'.format(index, row['TIG_REGION'])\<close>\<close>
  | Not_All_Inversions nat nat
      \<comment> \<open>\<^verbatim>\<open>'Detected inversions in merge, but not all variants are inversions ({} of {})'\<close>\<close>
  | Program_Bug_0_0
      \<comment> \<open>\<^verbatim>\<open>'Program bug: Found 0|0 genotypes after merging haplotypes'\<close>\<close>

datatype py_error =
    KeyError
  | AttributeError
  | UnboundLocalError
  | ValueError
  | RuntimeError runtime_message

section \<open>Interval trees\<close>

text \<open>
  \<^verbatim>\<open>intervaltree.IntervalTree\<close> is a library type, a set of intervals that the code only
  queries. An interval has a \<^verbatim>\<open>begin\<close> and an \<^verbatim>\<open>end\<close>; a tree is the list of its
  intervals (the order is not observable through the queries the code makes).

  \<^verbatim>\<open>tree.overlap(begin, end)\<close> returns nothing for an empty tree and nothing when
  \<^verbatim>\<open>begin >= end\<close>; otherwise it returns every stored interval \<open>iv\<close> with
  \<^verbatim>\<open>iv.begin < end and iv.end > begin\<close>. \<^verbatim>\<open>tree[a:b]\<close> with both bounds given is
  \<^verbatim>\<open>tree.overlap(a, b)\<close>.
\<close>

datatype interval = Interval (iv_begin: int) (iv_end: int)

type_synonym interval_tree = "interval list"

definition overlap :: "interval_tree \<Rightarrow> int \<Rightarrow> int \<Rightarrow> interval list" where
  "overlap tree b e =
     (if tree = [] then []
      else if b \<ge> e then []
      else filter (\<lambda>iv. iv_begin iv < e \<and> iv_end iv > b) tree)"

definition getitem_slice :: "interval_tree \<Rightarrow> int \<Rightarrow> int \<Rightarrow> interval list" where
  "getitem_slice tree a b = overlap tree a b"

text \<open>
  \<^verbatim>\<open>collections.defaultdict(intervaltree.IntervalTree)\<close>: a dictionary from sequence
  names to trees. Reading a missing key stores an empty tree under it and returns that
  tree; it never raises.
\<close>

type_synonym tree_dict = "string \<rightharpoonup> interval_tree"

definition dd_getitem :: "tree_dict \<Rightarrow> string \<Rightarrow> interval_tree \<times> tree_dict" where
  "dd_getitem d k = (case d k of Some t \<Rightarrow> (t, d) | None \<Rightarrow> ([], d(k \<mapsto> [])))"

text \<open>The tree a key stands for, which reading through \<^const>\<open>dd_getitem\<close> does not change.\<close>

definition dd_tree :: "tree_dict \<Rightarrow> string \<Rightarrow> interval_tree" where
  "dd_tree d k = (case d k of Some t \<Rightarrow> t | None \<Rightarrow> [])"

section \<open>Genotype of one haplotype: \<^verbatim>\<open>get_gt\<close>\<close>

text \<open>
  A merged variant row, with the columns \<^verbatim>\<open>get_gt\<close> and \<^verbatim>\<open>val_per_hap\<close> read:
  \<^verbatim>\<open>#CHROM\<close>, \<^verbatim>\<open>POS\<close>, \<^verbatim>\<open>END\<close>, \<^verbatim>\<open>HAP\<close> and \<^verbatim>\<open>HAP_VARIANTS\<close>, and the row's index
  label.
\<close>

record variant =
  label :: cell
  CHROM :: string
  POS :: int
  END :: int
  HAP :: string
  HAP_VARIANTS :: string

text \<open>The loop over the intervals \<^verbatim>\<open>overlap\<close> returned: the first interval that holds
  the whole of \<^verbatim>\<open>[POS, END)\<close> returns \<^verbatim>\<open>'0'\<close>; falling out of the loop returns \<^verbatim>\<open>'.'\<close>.\<close>

fun gt_loop :: "interval list \<Rightarrow> variant \<Rightarrow> string" where
  "gt_loop [] row = ''.''"
| "gt_loop (interval # rest) row =
     (if iv_begin interval \<le> POS row \<and> iv_end interval \<ge> END row then ''0''
      else gt_loop rest row)"

text \<open>\<^verbatim>\<open>get_gt(row, hap, map_tree)\<close>. The second component is \<^verbatim>\<open>map_tree\<close> after the
  call: the dictionary is only read when the haplotype is not in \<^verbatim>\<open>HAP\<close>.\<close>

definition get_gt :: "variant \<Rightarrow> string \<Rightarrow> tree_dict \<Rightarrow> string \<times> tree_dict" where
  "get_gt row hap map_tree =
     (if hap \<in> set (str_split (CHR '';'') (HAP row)) then (''1'', map_tree)
      else (case dd_getitem map_tree (CHROM row) of
              (tree, map_tree') \<Rightarrow> (gt_loop (overlap tree (POS row) (END row)) row, map_tree')))"

section \<open>Contig-region filter: \<^verbatim>\<open>filter_by_tig_tree\<close>\<close>

text \<open>
  \<^verbatim>\<open>re.match('^([^:]+):(\d+)-(\d+)$', s)\<close>, returning the three groups. The first group
  is everything before the first \<^verbatim>\<open>':'\<close> and must not be empty; each \<^verbatim>\<open>\d+\<close> is a
  maximal run of digits; \<^verbatim>\<open>$\<close> matches at the end of the string and also just before a
  newline that ends the string. Digits are the ASCII digits.
\<close>

definition is_digit :: "char \<Rightarrow> bool" where
  "is_digit c = (c \<in> set ''0123456789'')"

definition match_tig_region :: "string \<Rightarrow> (string \<times> string \<times> string) option" where
  "match_tig_region s =
     (let contig = takeWhile (\<lambda>c. c \<noteq> CHR '':'') s;
          after_contig = dropWhile (\<lambda>c. c \<noteq> CHR '':'') s
      in if contig = [] then None
         else (case after_contig of
                 [] \<Rightarrow> None
               | _ # r1 \<Rightarrow>
                   (let start = takeWhile is_digit r1; r2 = dropWhile is_digit r1
                    in if start = [] then None
                       else (case r2 of
                               [] \<Rightarrow> None
                             | c # r3 \<Rightarrow>
                                 if c \<noteq> CHR ''-'' then None
                                 else (let stop = takeWhile is_digit r3;
                                           r4 = dropWhile is_digit r3
                                       in if stop = [] then None
                                          else if r4 = [] \<or> r4 = [CHR 0x0A]
                                               then Some (contig, start, stop)
                                          else None)))))"

text \<open>\<^verbatim>\<open>int(digits)\<close> for a string of decimal digits.\<close>

definition int_of_digits :: "string \<Rightarrow> int" where
  "int_of_digits ds = foldl (\<lambda>acc c. 10 * acc + (of_char c - 48)) 0 ds"

text \<open>
  A row of the call set as the filter sees it: the \<^verbatim>\<open>TIG_REGION\<close> column, and the other
  columns, which the filter never reads. A frame is the list of its rows, each with its
  index label, in the order \<^verbatim>\<open>df.iterrows()\<close> yields them.
\<close>

record 'a call_row =
  TIG_REGION :: string
  other_columns :: 'a

type_synonym 'a frame = "(cell \<times> 'a call_row) list"

text \<open>
  Frames are objects: the store maps an address to the frame held there, and \<open>fresh\<close> is
  the next unused address. A function that returns its argument returns the same
  address; \<^verbatim>\<open>df.loc[mask]\<close> builds a new frame at a new address.
\<close>

record 'a store =
  objs :: "nat \<Rightarrow> 'a frame"
  fresh :: nat

definition alloc :: "'a store \<Rightarrow> 'a frame \<Rightarrow> nat \<times> 'a store" where
  "alloc st f = (fresh st, st\<lparr>objs := (objs st)(fresh st := f), fresh := Suc (fresh st)\<rparr>)"

text \<open>The loop of lines 86 to 93 over the rows, with the tree dictionary and
  \<^verbatim>\<open>rm_index_set\<close> as they change.\<close>

fun scan_rows ::
  "'a frame \<Rightarrow> tree_dict \<Rightarrow> cell set \<Rightarrow> py_error + (cell set \<times> tree_dict)" where
  "scan_rows [] tig_filter_tree rm_index_set = Inr (rm_index_set, tig_filter_tree)"
| "scan_rows ((index, row) # rest) tig_filter_tree rm_index_set =
     (case match_tig_region (TIG_REGION row) of
        None \<Rightarrow> Inl (RuntimeError (Unrecognized_TIG_REGION index (TIG_REGION row)))
      | Some (contig, start, stop) \<Rightarrow>
          (case dd_getitem tig_filter_tree contig of
             (tree, tig_filter_tree') \<Rightarrow>
               if getitem_slice tree (int_of_digits start - 1) (int_of_digits stop) \<noteq> []
               then scan_rows rest tig_filter_tree' (insert index rm_index_set)
               else scan_rows rest tig_filter_tree' rm_index_set))"

text \<open>\<^verbatim>\<open>df.loc[[val not in rm_index_set for val in df.index]]\<close>: the rows whose index
  label is not in the set, in their order.\<close>

definition loc_not_in :: "'a frame \<Rightarrow> cell set \<Rightarrow> 'a frame" where
  "loc_not_in df rm_index_set = filter (\<lambda>(val, row). val \<notin> rm_index_set) df"

text \<open>\<^verbatim>\<open>filter_by_tig_tree(df, tig_filter_tree)\<close>: \<open>df\<close> is the address of the frame. The
  result is the address returned, the store and the tree dictionary after the call.\<close>

definition filter_by_tig_tree ::
  "'a store \<Rightarrow> nat \<Rightarrow> tree_dict option \<Rightarrow>
     py_error + (nat \<times> 'a store \<times> tree_dict option)" where
  "filter_by_tig_tree st df tig_filter_tree =
     (case tig_filter_tree of
        None \<Rightarrow> Inr (df, st, None)
      | Some t \<Rightarrow>
          (case scan_rows (objs st df) t {} of
             Inl e \<Rightarrow> Inl e
           | Inr (rm_index_set, t') \<Rightarrow>
               if rm_index_set = {} then Inr (df, st, Some t')
               else (case alloc st (loc_not_in (objs st df) rm_index_set) of
                       (new, st') \<Rightarrow> Inr (new, st', Some t'))))"

text \<open>Whether the filter's query for a row finds an interval: the row's region parses
  and \<^verbatim>\<open>tree[contig][start - 1:stop]\<close> is not empty.\<close>

definition region_hits :: "tree_dict \<Rightarrow> 'a call_row \<Rightarrow> bool" where
  "region_hits t row =
     (case match_tig_region (TIG_REGION row) of
        None \<Rightarrow> False
      | Some (contig, start, stop) \<Rightarrow>
          getitem_slice (dd_tree t contig) (int_of_digits start - 1) (int_of_digits stop) \<noteq> [])"

definition region_ok :: "'a call_row \<Rightarrow> bool" where
  "region_ok row = (match_tig_region (TIG_REGION row) \<noteq> None)"

text \<open>The index labels of the rows whose query finds an interval: what
  \<^verbatim>\<open>rm_index_set\<close> holds after the loop.\<close>

definition hit_labels :: "tree_dict \<Rightarrow> 'a frame \<Rightarrow> cell set" where
  "hit_labels t rows = set (map fst (filter (\<lambda>(i, row). region_hits t row) rows))"

text \<open>
  The claim's reading of a row's overlap: the region parses, and the 0-based half-open
  interval \<^verbatim>\<open>[start - 1, end)\<close> has a position in common with an interval stored for the
  contig (the larger of the two begins lies before the smaller of the two ends). Trees
  are proper when every stored interval has \<^verbatim>\<open>begin < end\<close>; the library stores no other.
\<close>

definition region_meets :: "tree_dict \<Rightarrow> 'a call_row \<Rightarrow> bool" where
  "region_meets t row =
     (case match_tig_region (TIG_REGION row) of
        None \<Rightarrow> False
      | Some (contig, start, stop) \<Rightarrow>
          list_ex (\<lambda>iv. max (int_of_digits start - 1) (iv_begin iv)
                         < min (int_of_digits stop) (iv_end iv))
            (dd_tree t contig))"

definition proper_trees :: "tree_dict \<Rightarrow> bool" where
  "proper_trees t = (\<forall>k. list_all (\<lambda>iv. iv_begin iv < iv_end iv) (dd_tree t k))"

section \<open>Field reconciler: \<^verbatim>\<open>val_per_hap\<close>\<close>

text \<open>
  A pre-merge haplotype table, indexed by the variant identifiers of that haplotype:
  an identifier gives the row, a column name gives the row's value, a string (the caller
  passes tables converted with \<^verbatim>\<open>astype(str)\<close>). \<^verbatim>\<open>table.loc[id, col_name]\<close> raises
  \<^verbatim>\<open>KeyError\<close> when the identifier is not in the index or the table has no such column.
\<close>

type_synonym hap_table = "string \<rightharpoonup> (string \<rightharpoonup> string)"

definition loc :: "hap_table \<Rightarrow> string \<Rightarrow> string \<Rightarrow> py_error + string" where
  "loc table ident col_name =
     (case table ident of
        None \<Rightarrow> Inl KeyError
      | Some r \<Rightarrow> (case r col_name of None \<Rightarrow> Inl KeyError | Some v \<Rightarrow> Inr v))"

text \<open>\<^verbatim>\<open>df_dict = {'h1': df_h1, 'h2': df_h2}\<close>.\<close>

definition df_dict :: "hap_table \<Rightarrow> hap_table \<Rightarrow> (string \<rightharpoonup> hap_table)" where
  "df_dict df_h1 df_h2 = [''h1'' \<mapsto> df_h1, ''h2'' \<mapsto> df_h2]"

text \<open>\<^verbatim>\<open>df_dict[val[0]].loc[val[1], col_name]\<close> for one pair \<^verbatim>\<open>val\<close>: a label that is not a
  key of \<^verbatim>\<open>df_dict\<close> raises \<^verbatim>\<open>KeyError\<close> too.\<close>

definition hap_value ::
  "(string \<rightharpoonup> hap_table) \<Rightarrow> string \<Rightarrow> string \<times> string \<Rightarrow> py_error + string" where
  "hap_value d col_name val =
     (case d (fst val) of
        None \<Rightarrow> Inl KeyError
      | Some table \<Rightarrow> loc table (snd val) col_name)"

text \<open>Applying a function that may raise to the elements of a sequence in order: the
  first exception ends the whole evaluation. This is \<^verbatim>\<open>Series.apply\<close> over the rows and
  the evaluation of the generator that \<^verbatim>\<open>join\<close> consumes.\<close>

fun apply_each :: "('a \<Rightarrow> 'e + 'b) \<Rightarrow> 'a list \<Rightarrow> 'e + 'b list" where
  "apply_each f [] = Inr []"
| "apply_each f (x # xs) =
     (case f x of
        Inl e \<Rightarrow> Inl e
      | Inr y \<Rightarrow> (case apply_each f xs of Inl e \<Rightarrow> Inl e | Inr ys \<Rightarrow> Inr (y # ys)))"

text \<open>The first \<^verbatim>\<open>apply\<close>: \<^verbatim>\<open>tuple(zip(row['HAP'].split(';'), row['HAP_VARIANTS'].split(';')))\<close>;
  \<^verbatim>\<open>zip\<close> stops at the shorter of the two lists.\<close>

definition hap_pairs :: "variant \<Rightarrow> (string \<times> string) list" where
  "hap_pairs row =
     zip (str_split (CHR '';'') (HAP row)) (str_split (CHR '';'') (HAP_VARIANTS row))"

text \<open>The second \<^verbatim>\<open>apply\<close>: \<^verbatim>\<open>delim.join(df_dict[val[0]].loc[val[1], col_name] for val in val_list)\<close>.\<close>

definition join_values ::
  "(string \<rightharpoonup> hap_table) \<Rightarrow> string \<Rightarrow> string \<Rightarrow> (string \<times> string) list \<Rightarrow>
     py_error + string" where
  "join_values d col_name delim val_list =
     (case apply_each (hap_value d col_name) val_list of
        Inl e \<Rightarrow> Inl e
      | Inr values \<Rightarrow> Inr (str_join delim values))"

text \<open>The second \<^verbatim>\<open>apply\<close> on one element of the series, which keeps its index label.\<close>

definition row_value ::
  "(string \<rightharpoonup> hap_table) \<Rightarrow> string \<Rightarrow> string \<Rightarrow> cell \<times> (string \<times> string) list \<Rightarrow>
     py_error + cell \<times> string" where
  "row_value d col_name delim =
     (\<lambda>(index, val_list).
           (case join_values d col_name delim val_list of
              Inl e \<Rightarrow> Inl e
            | Inr v \<Rightarrow> Inr (index, v)))"

text \<open>\<^verbatim>\<open>val_per_hap(df, df_h1, df_h2, col_name, delim)\<close> for a frame with rows (the caller
  only passes such frames). The result is the series: one value for each row of \<open>df\<close>,
  under the row's index label, in the order of \<open>df\<close>.\<close>

definition val_per_hap ::
  "variant list \<Rightarrow> hap_table \<Rightarrow> hap_table \<Rightarrow> string \<Rightarrow> string \<Rightarrow>
     py_error + (cell \<times> string) list" where
  "val_per_hap df df_h1 df_h2 col_name delim =
     apply_each (row_value (df_dict df_h1 df_h2) col_name delim)
       (map (\<lambda>row. (label row, hap_pairs row)) df)"

text \<open>
  The specification's reading of one lookup: \<open>v\<close> is the value of the named field in the
  source table that belongs to the label of the pair, at the pair's identifier.
\<close>

definition spec_source_value ::
  "hap_table \<Rightarrow> hap_table \<Rightarrow> string \<Rightarrow> string \<times> string \<Rightarrow> string \<Rightarrow> bool" where
  "spec_source_value df_h1 df_h2 col_name val v =
     (case (if fst val = ''h1'' then Some df_h1 else if fst val = ''h2'' then Some df_h2 else None) of
        None \<Rightarrow> False
      | Some table \<Rightarrow>
          (case table (snd val) of None \<Rightarrow> False | Some r \<Rightarrow> r col_name = Some v))"

section \<open>Haplotype merge: \<^verbatim>\<open>merge_haplotypes\<close>\<close>

text \<open>
  The frame the external \<^verbatim>\<open>merge_variants\<close> returns, and what \<^verbatim>\<open>merge_haplotypes\<close> makes
  of it. A row has its index label, the coordinate columns \<^verbatim>\<open>#CHROM\<close>, \<^verbatim>\<open>POS\<close> and
  \<^verbatim>\<open>END\<close> at their types (the function only reads them, in \<^verbatim>\<open>get_gt\<close>), and the cells of
  the other columns by column label. \<open>frame_columns\<close> lists the labels of these other columns
  in order; a frame without rows still has its columns.
\<close>

record merge_row =
  row_index :: cell
  row_chrom :: string
  row_pos :: int
  row_end :: int
  row_cells :: "(string \<times> cell) list"

record merge_frame =
  frame_columns :: "string list"
  frame_rows :: "merge_row list"

text \<open>Sequencing of steps that may raise.\<close>

definition and_then :: "'e + 'a \<Rightarrow> ('a \<Rightarrow> 'e + 'b) \<Rightarrow> 'e + 'b" where
  "and_then m f = (case m of Inl e \<Rightarrow> Inl e | Inr x \<Rightarrow> f x)"

text \<open>\<^verbatim>\<open>del df[c]\<close>: \<^verbatim>\<open>KeyError\<close> when no column has the label, otherwise every column of
  that label goes.\<close>

definition del_column :: "string \<Rightarrow> merge_frame \<Rightarrow> py_error + merge_frame" where
  "del_column c df =
     (if c \<notin> set (frame_columns df) then Inl KeyError
      else Inr (df\<lparr>frame_columns := removeAll c (frame_columns df),
                  frame_rows := map (\<lambda>r. r\<lparr>row_cells := AList.delete c (row_cells r)\<rparr>) (frame_rows df)\<rparr>))"

text \<open>\<^verbatim>\<open>if c in df.columns: del df[c]\<close>.\<close>

definition del_column_if_present :: "string \<Rightarrow> merge_frame \<Rightarrow> py_error + merge_frame" where
  "del_column_if_present c df = (if c \<in> set (frame_columns df) then del_column c df else Inr df)"

text \<open>\<^verbatim>\<open>df.columns = [f(val) for val in df.columns]\<close>.\<close>

definition rename_columns :: "(string \<Rightarrow> string) \<Rightarrow> merge_frame \<Rightarrow> merge_frame" where
  "rename_columns f df =
     df\<lparr>frame_columns := map f (frame_columns df),
        frame_rows := map (\<lambda>r. r\<lparr>row_cells := map (\<lambda>(k, v). (f k, v)) (row_cells r)\<rparr>) (frame_rows df)\<rparr>"

text \<open>\<^verbatim>\<open>re.sub('^MERGE_', 'HAP_', val)\<close>.\<close>

definition sub_merge_prefix :: "string \<Rightarrow> string" where
  "sub_merge_prefix val = (if take 6 val = ''MERGE_'' then ''HAP_'' @ drop 6 val else val)"

text \<open>\<^verbatim>\<open>df[c] = series\<close>, the values given in row order: the column is replaced, or added
  as the last column.\<close>

definition set_column :: "string \<Rightarrow> cell list \<Rightarrow> merge_frame \<Rightarrow> merge_frame" where
  "set_column c vals df =
     df\<lparr>frame_columns := (if c \<in> set (frame_columns df) then frame_columns df else frame_columns df @ [c]),
        frame_rows := map2 (\<lambda>r v. r\<lparr>row_cells := AList.update c v (row_cells r)\<rparr>) (frame_rows df) vals\<rparr>"

text \<open>\<^verbatim>\<open>df[c] = np.nan\<close>.\<close>

definition set_column_nan :: "string \<Rightarrow> merge_frame \<Rightarrow> merge_frame" where
  "set_column_nan c df = set_column c (replicate (length (frame_rows df)) NaN) df"

text \<open>\<^verbatim>\<open>df.set_index('ID', inplace=True, drop=False)\<close>.\<close>

definition set_index_ID :: "merge_frame \<Rightarrow> py_error + merge_frame" where
  "set_index_ID df =
     (if ''ID'' \<notin> set (frame_columns df) then Inl KeyError
      else and_then
             (apply_each
                (\<lambda>r. case map_of (row_cells r) ''ID'' of
                        None \<Rightarrow> Inl KeyError
                      | Some v \<Rightarrow> Inr (r\<lparr>row_index := v\<rparr>))
                (frame_rows df))
             (\<lambda>rs. Inr (df\<lparr>frame_rows := rs\<rparr>)))"

text \<open>Lines 132 to 136: in inversion mode every row's \<^verbatim>\<open>SVTYPE\<close> must be \<^verbatim>\<open>'INV'\<close>.\<close>

definition check_is_inv :: "bool \<Rightarrow> merge_frame \<Rightarrow> py_error + merge_frame" where
  "check_is_inv is_inv df =
     (if \<not> is_inv then Inr df
      else if ''SVTYPE'' \<notin> set (frame_columns df) then Inl KeyError
      else (let n = length (filter (\<lambda>r. map_of (row_cells r) ''SVTYPE'' = Some (Str ''INV'')) (frame_rows df))
            in if n \<noteq> length (frame_rows df)
               then Inl (RuntimeError (Not_All_Inversions n (length (frame_rows df))))
               else Inr df))"

text \<open>Lines 130 to 152: the index, the inversion check and the columns.\<close>

definition restructure :: "bool \<Rightarrow> merge_frame \<Rightarrow> py_error + merge_frame" where
  "restructure is_inv merged =
     and_then (set_index_ID merged) (\<lambda>df.
     and_then (check_is_inv is_inv df) (\<lambda>df.
     and_then (del_column_if_present ''HAP'' df) (\<lambda>df.
     and_then (del_column_if_present ''DISC_CLASS'' df) (\<lambda>df.
     and_then (del_column ''HAP_SRC'' (rename_columns sub_merge_prefix df)) (\<lambda>df.
     and_then (del_column ''HAP_SRC_ID'' df) (\<lambda>df.
     and_then (del_column ''HAP_AC'' df) (\<lambda>df.
     and_then (del_column ''HAP_AF'' df) (\<lambda>df.
     Inr (rename_columns (\<lambda>val. if val = ''HAP_SAMPLES'' then ''HAP'' else val) df)))))))))"

text \<open>
  \<^verbatim>\<open>df[c] = df[c].apply(lambda val: ';'.join(val.split(',')))\<close>. With no column \<open>c\<close> the
  read raises \<^verbatim>\<open>KeyError\<close>; with several columns of that label \<^verbatim>\<open>df[c]\<close> is a frame,
  whose \<^verbatim>\<open>apply\<close> passes whole columns to the function, and \<^verbatim>\<open>split\<close> is no attribute of
  a column; a cell that is not a string has no \<^verbatim>\<open>split\<close> either.
\<close>

definition commas_to_semicolons :: "string \<Rightarrow> string" where
  "commas_to_semicolons val = str_join '';'' (str_split (CHR '','') val)"

definition normalize_column :: "string \<Rightarrow> merge_frame \<Rightarrow> py_error + merge_frame" where
  "normalize_column c df =
     (if c \<notin> set (frame_columns df) then Inl KeyError
      else if count_list (frame_columns df) c > 1 then Inl AttributeError
      else and_then
             (apply_each
                (\<lambda>r. case map_of (row_cells r) c of
                        None \<Rightarrow> Inl KeyError
                      | Some (Str val) \<Rightarrow>
                          Inr (r\<lparr>row_cells := AList.update c (Str (commas_to_semicolons val)) (row_cells r)\<rparr>)
                      | Some _ \<Rightarrow> Inl AttributeError)
                (frame_rows df))
             (\<lambda>rs. Inr (df\<lparr>frame_rows := rs\<rparr>)))"

definition normalize_column_if_present :: "string \<Rightarrow> merge_frame \<Rightarrow> py_error + merge_frame" where
  "normalize_column_if_present c df =
     (if c \<in> set (frame_columns df) then normalize_column c df else Inr df)"

text \<open>
  A haplotype's call table as \<^verbatim>\<open>read_csv_chrom\<close> loads it: its column labels, and its
  rows under their \<^verbatim>\<open>ID\<close> (identifiers are strings, one row each). Lines 172 to 175
  index it by \<^verbatim>\<open>ID\<close>, put \<^verbatim>\<open>'NA'\<close> for a missing \<^verbatim>\<open>CLUSTER_MATCH\<close> and turn every cell
  into a string.
\<close>

record hap_frame =
  hap_columns :: "string list"
  hap_rows :: "string \<rightharpoonup> (string \<rightharpoonup> cell)"

fun str_of_nat :: "nat \<Rightarrow> string" where
  "str_of_nat n =
     (if n < 10 then [char_of (48 + n)]
      else str_of_nat (n div 10) @ [char_of (48 + n mod 10)])"

definition str_of_int :: "int \<Rightarrow> string" where
  "str_of_int i = (if i < 0 then CHR ''-'' # str_of_nat (nat (- i)) else str_of_nat (nat i))"

definition str_of_cell :: "cell \<Rightarrow> string" where
  "str_of_cell v = (case v of Str s \<Rightarrow> s | Num i \<Rightarrow> str_of_int i | NaN \<Rightarrow> ''nan'')"

definition fillna_NA :: "cell \<Rightarrow> cell" where
  "fillna_NA v = (case v of NaN \<Rightarrow> Str ''NA'' | _ \<Rightarrow> v)"

definition load_hap_table :: "hap_frame \<Rightarrow> py_error + hap_table" where
  "load_hap_table hf =
     (if ''ID'' \<notin> set (hap_columns hf) then Inl KeyError
      else if ''CLUSTER_MATCH'' \<notin> set (hap_columns hf) then Inl KeyError
      else Inr (\<lambda>ident.
             map_option
               (\<lambda>r col. map_option
                           (\<lambda>v. str_of_cell (if col = ''CLUSTER_MATCH'' then fillna_NA v else v))
                           (r col))
               (hap_rows hf ident)))"

text \<open>A row as \<^verbatim>\<open>val_per_hap\<close> and \<^verbatim>\<open>get_gt\<close> read it: \<^verbatim>\<open>row['HAP']\<close> first, then
  \<^verbatim>\<open>row['HAP_VARIANTS']\<close>, each a string to split.\<close>

definition as_variant :: "merge_row \<Rightarrow> py_error + variant" where
  "as_variant r =
     (case map_of (row_cells r) ''HAP'' of
        None \<Rightarrow> Inl KeyError
      | Some (Str h) \<Rightarrow>
          (case map_of (row_cells r) ''HAP_VARIANTS'' of
             None \<Rightarrow> Inl KeyError
           | Some (Str v) \<Rightarrow>
               Inr \<lparr>label = row_index r, CHROM = row_chrom r, POS = row_pos r, END = row_end r,
                    HAP = h, HAP_VARIANTS = v\<rparr>
           | Some _ \<Rightarrow> Inl AttributeError)
      | Some _ \<Rightarrow> Inl AttributeError)"

text \<open>\<^verbatim>\<open>df[c] = asmlib.call.val_per_hap(df, df_h1, df_h2, c)\<close> for the columns \<open>cs\<close> in turn.
  The assignments leave \<^verbatim>\<open>HAP\<close> and \<^verbatim>\<open>HAP_VARIANTS\<close> alone, so the rows \<open>vs\<close> that
  \<^verbatim>\<open>val_per_hap\<close> reads are the same for each call.\<close>

fun reconcile_columns ::
  "string list \<Rightarrow> variant list \<Rightarrow> hap_table \<Rightarrow> hap_table \<Rightarrow> merge_frame \<Rightarrow>
     py_error + merge_frame" where
  "reconcile_columns [] vs df_h1 df_h2 df = Inr df"
| "reconcile_columns (c # cs) vs df_h1 df_h2 df =
     and_then (val_per_hap vs df_h1 df_h2 c '';'') (\<lambda>series.
     reconcile_columns cs vs df_h1 df_h2 (set_column c (map (\<lambda>(index, v). Str v) series) df))"

text \<open>
  \<^verbatim>\<open>tree[pos:end] = True\<close> adds the interval to the tree in place: nothing happens when
  the tree has it already, and the library raises \<^verbatim>\<open>ValueError\<close> for an interval with
  \<^verbatim>\<open>begin >= end\<close>. Lines 206 to 210 do this for each row of a callable-region table
  (\<^verbatim>\<open>#CHROM\<close>, \<^verbatim>\<open>POS\<close>, \<^verbatim>\<open>END\<close>), starting from an empty dictionary.
\<close>

definition setitem_slice :: "interval_tree \<Rightarrow> int \<Rightarrow> int \<Rightarrow> py_error + interval_tree" where
  "setitem_slice tree b e =
     (if Interval b e \<in> set tree then Inr tree
      else if b \<ge> e then Inl ValueError
      else Inr (tree @ [Interval b e]))"

fun load_map_tree :: "(string \<times> int \<times> int) list \<Rightarrow> tree_dict \<Rightarrow> py_error + tree_dict" where
  "load_map_tree [] map_tree = Inr map_tree"
| "load_map_tree ((chrom, pos, stop) # rest) map_tree =
     (case dd_getitem map_tree chrom of
        (tree, map_tree') \<Rightarrow>
          and_then (setitem_slice tree pos stop) (\<lambda>tree'.
          load_map_tree rest (map_tree'(chrom \<mapsto> tree'))))"

text \<open>\<^verbatim>\<open>df.apply(asmlib.call.get_gt, hap=hap, map_tree=map_tree, axis=1)\<close>: \<^verbatim>\<open>get_gt\<close> on
  each row in order, the dictionary passing from one call to the next.\<close>

fun apply_get_gt :: "variant list \<Rightarrow> string \<Rightarrow> tree_dict \<Rightarrow> string list \<times> tree_dict" where
  "apply_get_gt [] hap map_tree = ([], map_tree)"
| "apply_get_gt (row # rest) hap map_tree =
     (case get_gt row hap map_tree of
        (gt, map_tree') \<Rightarrow>
          (case apply_get_gt rest hap map_tree' of
             (gts, map_tree'') \<Rightarrow> (gt # gts, map_tree'')))"

text \<open>\<^verbatim>\<open>'{}|{}'.format(row['GT_H1'], row['GT_H2'])\<close>.\<close>

definition format_gt :: "string \<Rightarrow> string \<Rightarrow> string" where
  "format_gt gt_h1 gt_h2 = gt_h1 @ ''|'' @ gt_h2"

text \<open>Lines 218 and 219, on the frame that holds the assembled \<^verbatim>\<open>GT\<close> column.\<close>

definition check_gt :: "merge_frame \<Rightarrow> py_error + merge_frame" where
  "check_gt df =
     (if list_ex (\<lambda>r. map_of (row_cells r) ''GT'' = Some (Str ''0|0'')) (frame_rows df)
      then Inl (RuntimeError Program_Bug_0_0)
      else Inr df)"

text \<open>Lines 199 to 222: the mappability trees, the genotype of each haplotype, the
  \<^verbatim>\<open>GT\<close> column, its check, and the removal of the two helper columns.\<close>

definition genotype_columns ::
  "variant list \<Rightarrow> (string \<times> int \<times> int) list \<Rightarrow> (string \<times> int \<times> int) list \<Rightarrow> merge_frame \<Rightarrow>
     py_error + merge_frame" where
  "genotype_columns vs df_map_h1 df_map_h2 df =
     and_then (load_map_tree df_map_h1 Map.empty) (\<lambda>map_tree_h1.
     and_then (load_map_tree df_map_h2 Map.empty) (\<lambda>map_tree_h2.
       (let gt_h1 = fst (apply_get_gt vs ''h1'' map_tree_h1);
            gt_h2 = fst (apply_get_gt vs ''h2'' map_tree_h2);
            df1 = set_column ''GT_H1'' (map Str gt_h1) df;
            df2 = set_column ''GT_H2'' (map Str gt_h2) df1;
            df3 = set_column ''GT'' (map Str (map2 format_gt gt_h1 gt_h2)) df2
        in and_then (check_gt df3) (\<lambda>df.
           and_then (del_column ''GT_H1'' df) (\<lambda>df.
           del_column ''GT_H2'' df)))))"

text \<open>Lines 155 to 222: the branch for a frame with rows.\<close>

definition fill_rows ::
  "bool \<Rightarrow> hap_frame \<Rightarrow> hap_frame \<Rightarrow> (string \<times> int \<times> int) list \<Rightarrow> (string \<times> int \<times> int) list \<Rightarrow>
     merge_frame \<Rightarrow> py_error + merge_frame" where
  "fill_rows is_inv h1 h2 df_map_h1 df_map_h2 df =
     and_then (normalize_column ''HAP'' df) (\<lambda>df.
     and_then (normalize_column ''HAP_VARIANTS'' df) (\<lambda>df.
     and_then (normalize_column_if_present ''HAP_RO'' df) (\<lambda>df.
     and_then (normalize_column_if_present ''HAP_OFFSET'' df) (\<lambda>df.
     and_then (normalize_column_if_present ''HAP_SZRO'' df) (\<lambda>df.
     and_then (normalize_column_if_present ''HAP_OFFSZ'' df) (\<lambda>df.
     and_then (load_hap_table h1) (\<lambda>df_h1.
     and_then (load_hap_table h2) (\<lambda>df_h2.
     and_then (apply_each as_variant (frame_rows df)) (\<lambda>vs.
     and_then (reconcile_columns
                 [''TIG_REGION'', ''QUERY_STRAND'', ''CI'', ''ALIGN_INDEX'', ''CLUSTER_MATCH'',
                  ''CALL_SOURCE''] vs df_h1 df_h2 df) (\<lambda>df.
     and_then (if is_inv
               then and_then (del_column ''RGN_REF_DISC'' df) (\<lambda>df.
                    and_then (del_column ''RGN_TIG_DISC'' df) (\<lambda>df.
                    and_then (del_column ''FLAG_ID'' df) (\<lambda>df.
                    and_then (del_column ''FLAG_TYPE'' df) (\<lambda>df.
                    reconcile_columns [''RGN_REF_INNER'', ''RGN_TIG_INNER''] vs df_h1 df_h2 df))))
               else Inr df) (\<lambda>df.
     genotype_columns vs df_map_h1 df_map_h2 df)))))))))))"

text \<open>Lines 226 to 242: the branch for a frame without rows.\<close>

definition fill_empty :: "bool \<Rightarrow> merge_frame \<Rightarrow> py_error + merge_frame" where
  "fill_empty is_inv df =
     and_then
       (Inr (set_column_nan ''CALL_SOURCE'' (set_column_nan ''CLUSTER_MATCH''
             (set_column_nan ''ALIGN_INDEX'' (set_column_nan ''CI''
             (set_column_nan ''QUERY_STRAND'' (set_column_nan ''TIG_REGION'' df))))))) (\<lambda>df.
     and_then (if is_inv
               then and_then (del_column ''RGN_REF_DISC'' df) (\<lambda>df.
                    and_then (del_column ''RGN_TIG_DISC'' df) (\<lambda>df.
                    and_then (del_column ''FLAG_ID'' df) (\<lambda>df.
                    and_then (del_column ''FLAG_TYPE'' df) (\<lambda>df.
                    Inr (set_column_nan ''RGN_TIG_INNER'' (set_column_nan ''RGN_REF_INNER'' df))))))
               else Inr df) (\<lambda>df.
     Inr (set_column_nan ''GT'' df)))"

text \<open>
  \<^verbatim>\<open>merge_haplotypes\<close>. The parameters of the model are what the function gets from
  outside: \<open>merged\<close> is the frame \<^verbatim>\<open>analib.svmerge.merge_variants\<close> returns for the two call
  files, \<open>h1\<close> and \<open>h2\<close> are the call tables \<^verbatim>\<open>read_csv_chrom\<close> loads, \<open>df_map_h1\<close> and
  \<open>df_map_h2\<close> the rows of the callable-region tables, and \<open>is_inv\<close> is the argument
  (\<^verbatim>\<open>None\<close>, or a truth value).

  With \<^verbatim>\<open>is_inv is None\<close>, line 119 reads the local variable \<^verbatim>\<open>df\<close>, which is only
  assigned at line 122: Python raises \<^verbatim>\<open>UnboundLocalError\<close>.
\<close>

definition merge_haplotypes ::
  "merge_frame \<Rightarrow> hap_frame \<Rightarrow> hap_frame \<Rightarrow> (string \<times> int \<times> int) list \<Rightarrow>
     (string \<times> int \<times> int) list \<Rightarrow> bool option \<Rightarrow> py_error + merge_frame" where
  "merge_haplotypes merged h1 h2 df_map_h1 df_map_h2 is_inv =
     (case is_inv of
        None \<Rightarrow> Inl UnboundLocalError
      | Some flag \<Rightarrow>
          and_then (restructure flag merged) (\<lambda>df.
          if frame_rows df \<noteq> [] then fill_rows flag h1 h2 df_map_h1 df_map_h2 df
          else fill_empty flag df))"

text \<open>The cells of one column, row by row, and the property that no row's \<^verbatim>\<open>GT\<close> is
  \<^verbatim>\<open>"0|0"\<close>.\<close>

definition column_cells :: "string \<Rightarrow> merge_frame \<Rightarrow> cell option list" where
  "column_cells c df = map (\<lambda>r. map_of (row_cells r) c) (frame_rows df)"

definition no_0_0 :: "merge_frame \<Rightarrow> bool" where
  "no_0_0 df = list_all (\<lambda>r. map_of (row_cells r) ''GT'' \<noteq> Some (Str ''0|0'')) (frame_rows df)"

text \<open>A result other than the \<^verbatim>\<open>Program bug\<close> error, and rows that each have \<^verbatim>\<open>h1\<close> or
  \<^verbatim>\<open>h2\<close> among their \<^verbatim>\<open>HAP\<close> labels.\<close>

definition not_bug :: "py_error + 'a \<Rightarrow> bool" where
  "not_bug r = (r \<noteq> Inl (RuntimeError Program_Bug_0_0))"

definition labels_ok :: "variant list \<Rightarrow> bool" where
  "labels_ok vs =
     list_all (\<lambda>row. ''h1'' \<in> set (str_split (CHR '';'') (HAP row))
                   \<or> ''h2'' \<in> set (str_split (CHR '';'') (HAP row))) vs"


subsection \<open>Example data\<close>

text \<open>
  A merged frame of two deletions, the first called in \<^verbatim>\<open>h1\<close> only and the second in both
  haplotypes, the two call tables they come from, and the frame \<^verbatim>\<open>merge_haplotypes\<close>
  returns for them when \<^verbatim>\<open>chr1:50-300\<close> is callable in both haplotypes.
\<close>

definition ex_merged :: merge_frame where
  "ex_merged =
     \<lparr>frame_columns = [''ID'', ''SVTYPE'', ''MERGE_SAMPLES'', ''MERGE_VARIANTS'', ''MERGE_SRC'',
                        ''MERGE_SRC_ID'', ''MERGE_AC'', ''MERGE_AF''],
      frame_rows =
        [\<lparr>row_index = Num 0, row_chrom = ''chr1'', row_pos = 100, row_end = 200,
          row_cells = [(''ID'', Str ''m1''), (''SVTYPE'', Str ''DEL''),
                       (''MERGE_SAMPLES'', Str ''h1''), (''MERGE_VARIANTS'', Str ''v1''),
                       (''MERGE_SRC'', Str ''h1''), (''MERGE_SRC_ID'', Str ''v1''),
                       (''MERGE_AC'', Num 1), (''MERGE_AF'', Str ''0.5'')]\<rparr>,
         \<lparr>row_index = Num 1, row_chrom = ''chr1'', row_pos = 400, row_end = 450,
          row_cells = [(''ID'', Str ''m2''), (''SVTYPE'', Str ''DEL''),
                       (''MERGE_SAMPLES'', Str ''h1,h2''), (''MERGE_VARIANTS'', Str ''v2,v9''),
                       (''MERGE_SRC'', Str ''h1''), (''MERGE_SRC_ID'', Str ''v2''),
                       (''MERGE_AC'', Num 2), (''MERGE_AF'', Str ''1.0'')]\<rparr>]\<rparr>"

definition ex_h1 :: hap_frame where
  "ex_h1 =
     \<lparr>hap_columns = [''ID'', ''TIG_REGION'', ''QUERY_STRAND'', ''CI'', ''ALIGN_INDEX'',
                      ''CLUSTER_MATCH'', ''CALL_SOURCE''],
      hap_rows =
        [''v1'' \<mapsto> [''ID'' \<mapsto> Str ''v1'', ''TIG_REGION'' \<mapsto> Str ''tig1:1000-1100'',
                    ''QUERY_STRAND'' \<mapsto> Str ''+'', ''CI'' \<mapsto> Str ''0,5'',
                    ''ALIGN_INDEX'' \<mapsto> Num 3, ''CLUSTER_MATCH'' \<mapsto> NaN,
                    ''CALL_SOURCE'' \<mapsto> Str ''CIGAR''],
         ''v2'' \<mapsto> [''ID'' \<mapsto> Str ''v2'', ''TIG_REGION'' \<mapsto> Str ''tig1:2000-2050'',
                    ''QUERY_STRAND'' \<mapsto> Str ''+'', ''CI'' \<mapsto> Str ''0,0'',
                    ''ALIGN_INDEX'' \<mapsto> Num 3, ''CLUSTER_MATCH'' \<mapsto> Str ''c1'',
                    ''CALL_SOURCE'' \<mapsto> Str ''CIGAR'']]\<rparr>"

definition ex_h2 :: hap_frame where
  "ex_h2 =
     \<lparr>hap_columns = [''ID'', ''TIG_REGION'', ''QUERY_STRAND'', ''CI'', ''ALIGN_INDEX'',
                      ''CLUSTER_MATCH'', ''CALL_SOURCE''],
      hap_rows =
        [''v9'' \<mapsto> [''ID'' \<mapsto> Str ''v9'', ''TIG_REGION'' \<mapsto> Str ''tig7:10-60'',
                    ''QUERY_STRAND'' \<mapsto> Str ''-'', ''CI'' \<mapsto> Str ''0,3'',
                    ''ALIGN_INDEX'' \<mapsto> Num 12, ''CLUSTER_MATCH'' \<mapsto> NaN,
                    ''CALL_SOURCE'' \<mapsto> Str ''CIGAR'']]\<rparr>"

definition ex_out :: merge_frame where
  "ex_out =
     \<lparr>frame_columns = [''ID'', ''SVTYPE'', ''HAP'', ''HAP_VARIANTS'', ''TIG_REGION'',
                        ''QUERY_STRAND'', ''CI'', ''ALIGN_INDEX'', ''CLUSTER_MATCH'',
                        ''CALL_SOURCE'', ''GT''],
      frame_rows =
        [\<lparr>row_index = Str ''m1'', row_chrom = ''chr1'', row_pos = 100, row_end = 200,
          row_cells = [(''ID'', Str ''m1''), (''SVTYPE'', Str ''DEL''), (''HAP'', Str ''h1''),
                       (''HAP_VARIANTS'', Str ''v1''), (''TIG_REGION'', Str ''tig1:1000-1100''),
                       (''QUERY_STRAND'', Str ''+''), (''CI'', Str ''0,5''),
                       (''ALIGN_INDEX'', Str ''3''), (''CLUSTER_MATCH'', Str ''NA''),
                       (''CALL_SOURCE'', Str ''CIGAR''), (''GT'', Str ''1|0'')]\<rparr>,
         \<lparr>row_index = Str ''m2'', row_chrom = ''chr1'', row_pos = 400, row_end = 450,
          row_cells = [(''ID'', Str ''m2''), (''SVTYPE'', Str ''DEL''), (''HAP'', Str ''h1;h2''),
                       (''HAP_VARIANTS'', Str ''v2;v9''),
                       (''TIG_REGION'', Str ''tig1:2000-2050;tig7:10-60''),
                       (''QUERY_STRAND'', Str ''+;-''), (''CI'', Str ''0,0;0,3''),
                       (''ALIGN_INDEX'', Str ''3;12''), (''CLUSTER_MATCH'', Str ''c1;NA''),
                       (''CALL_SOURCE'', Str ''CIGAR;CIGAR''), (''GT'', Str ''1|1'')]\<rparr>]\<rparr>"

section \<open>Properties of \<^verbatim>\<open>get_gt\<close>\<close>

lemma fst_dd_getitem: "fst (dd_getitem d k) = dd_tree d k"
  by (simp add: dd_getitem_def dd_tree_def split: option.splits)

lemma dd_tree_after_getitem: "dd_tree (snd (dd_getitem d k)) k' = dd_tree d k'"
  by (simp add: dd_getitem_def dd_tree_def split: option.splits)

lemma gt_loop_cases:
  "gt_loop ivs row =
     (if list_ex (\<lambda>iv. iv_begin iv \<le> POS row \<and> END row \<le> iv_end iv) ivs then ''0'' else ''.'')"
  by (induction ivs) auto

lemma overlap_holds_range:
  "list_ex (\<lambda>iv. iv_begin iv \<le> b \<and> e \<le> iv_end iv) (overlap tree b e) \<longleftrightarrow>
     b < e \<and> list_ex (\<lambda>iv. iv_begin iv \<le> b \<and> e \<le> iv_end iv) tree"
  by (auto simp: overlap_def list_ex_iff)

lemma get_gt_value:
  "fst (get_gt row hap map_tree) =
     (if hap \<in> set (str_split (CHR '';'') (HAP row)) then ''1''
      else if POS row < END row \<and>
              list_ex (\<lambda>iv. iv_begin iv \<le> POS row \<and> END row \<le> iv_end iv)
                (dd_tree map_tree (CHROM row))
           then ''0''
      else ''.'')"
proof -
  have "fst (get_gt row hap map_tree) =
      (if hap \<in> set (str_split (CHR '';'') (HAP row)) then ''1''
       else gt_loop (overlap (fst (dd_getitem map_tree (CHROM row))) (POS row) (END row)) row)"
    by (simp add: get_gt_def split: prod.splits)
  then show ?thesis
    by (simp only: fst_dd_getitem gt_loop_cases overlap_holds_range)
qed

text \<open>
  What \<^verbatim>\<open>get_gt\<close> computes, for every row, haplotype and dictionary: it returns \<^verbatim>\<open>'1'\<close> when the haplotype is one of the
  \<^verbatim>\<open>';'\<close>-separated labels of \<^verbatim>\<open>HAP\<close>; otherwise \<^verbatim>\<open>'0'\<close> when \<^verbatim>\<open>POS < END\<close> and one
  stored interval of the row's chromosome has \<^verbatim>\<open>begin \<le> POS\<close> and \<^verbatim>\<open>end \<ge> END\<close>;
  otherwise \<^verbatim>\<open>'.'\<close>. Intervals that only partly overlap \<^verbatim>\<open>[POS, END)\<close> therefore give
  \<^verbatim>\<open>'.'\<close>. The condition \<^verbatim>\<open>POS < END\<close> comes from \<^verbatim>\<open>overlap\<close>, which returns no interval
  for an empty range.
\<close>

theorem get_gt_ternary:
  "fst (get_gt row hap map_tree) =
     (if hap \<in> set (str_split (CHR '';'') (HAP row)) then ''1''
      else if POS row < END row \<and>
              (\<exists>iv \<in> set (dd_tree map_tree (CHROM row)).
                  iv_begin iv \<le> POS row \<and> iv_end iv \<ge> END row)
           then ''0''
      else ''.'')"
  by (simp add: get_gt_value list_ex_iff)

text \<open>The two scenarios of the specification: \<^verbatim>\<open>[100, 200)\<close> inside the mappable
  region \<^verbatim>\<open>[50, 300)\<close> is \<^verbatim>\<open>'0'\<close>; with only \<^verbatim>\<open>[100, 150)\<close> mappable it is \<^verbatim>\<open>'.'\<close>.\<close>

theorem get_gt_scenarios:
  "fst (get_gt \<lparr>label = Str ''v1'', CHROM = ''chr1'', POS = 100, END = 200, HAP = ''h1'',
                HAP_VARIANTS = ''v1''\<rparr> ''h2'' [''chr1'' \<mapsto> [Interval 50 300]]) = ''0''
   \<and> fst (get_gt \<lparr>label = Str ''v1'', CHROM = ''chr1'', POS = 100, END = 200, HAP = ''h1'',
                HAP_VARIANTS = ''v1''\<rparr> ''h2'' [''chr1'' \<mapsto> [Interval 100 150]]) = ''.''
   \<and> fst (get_gt \<lparr>label = Str ''v1'', CHROM = ''chr1'', POS = 100, END = 200, HAP = ''h1'',
                HAP_VARIANTS = ''v1''\<rparr> ''h1'' [''chr1'' \<mapsto> [Interval 100 150]]) = ''1''"
  using
    get_gt_ternary [of "\<lparr>label = Str ''v1'', CHROM = ''chr1'', POS = 100, END = 200, HAP = ''h1'',
                HAP_VARIANTS = ''v1''\<rparr>" "''h2''" "[''chr1'' \<mapsto> [Interval 50 300]]"]
    get_gt_ternary [of "\<lparr>label = Str ''v1'', CHROM = ''chr1'', POS = 100, END = 200, HAP = ''h1'',
                HAP_VARIANTS = ''v1''\<rparr>" "''h2''" "[''chr1'' \<mapsto> [Interval 100 150]]"]
    get_gt_ternary [of "\<lparr>label = Str ''v1'', CHROM = ''chr1'', POS = 100, END = 200, HAP = ''h1'',
                HAP_VARIANTS = ''v1''\<rparr>" "''h1''" "[''chr1'' \<mapsto> [Interval 100 150]]"]
  by (simp add: dd_tree_def)

text \<open>
  C1. For a row with \<^verbatim>\<open>POS = END = 100\<close> on \<^verbatim>\<open>chr1\<close>, whose \<^verbatim>\<open>HAP\<close> does not name the
  haplotype, and the stored interval \<^verbatim>\<open>[50, 300)\<close>, the claim, the docstring (\<^verbatim>\<open>'0'\<close> if
  the variant was not called but is in mappable regions) and the test of line 33
  (\<^verbatim>\<open>begin \<le> POS\<close> and \<^verbatim>\<open>end \<ge> END\<close>, which the interval passes) all give \<^verbatim>\<open>'0'\<close>. The
  code returns \<^verbatim>\<open>'.'\<close>: \<^verbatim>\<open>overlap(100, 100)\<close> is empty, so the loop never sees the
  interval.
\<close>

theorem get_gt_zero_length_record:
  "''h1'' \<notin> set (str_split (CHR '';'') (HAP \<lparr>label = Str ''v1'', CHROM = ''chr1'', POS = 100,
        END = 100, HAP = ''h2'', HAP_VARIANTS = ''v1''\<rparr>))
   \<and> dd_tree [''chr1'' \<mapsto> [Interval 50 300]] ''chr1'' = [Interval 50 300]
   \<and> iv_begin (Interval 50 300) \<le> POS \<lparr>label = Str ''v1'', CHROM = ''chr1'', POS = 100,
        END = 100, HAP = ''h2'', HAP_VARIANTS = ''v1''\<rparr>
   \<and> iv_end (Interval 50 300) \<ge> END \<lparr>label = Str ''v1'', CHROM = ''chr1'', POS = 100,
        END = 100, HAP = ''h2'', HAP_VARIANTS = ''v1''\<rparr>
   \<and> fst (get_gt \<lparr>label = Str ''v1'', CHROM = ''chr1'', POS = 100, END = 100, HAP = ''h2'',
          HAP_VARIANTS = ''v1''\<rparr> ''h1'' [''chr1'' \<mapsto> [Interval 50 300]]) = ''.''"
  by (simp add: get_gt_def dd_getitem_def dd_tree_def overlap_def)

text \<open>
  C9. When the dictionary has no interval for the row's \<^verbatim>\<open>#CHROM\<close> (no tree under that
  key, or an empty one) and the haplotype is not one of the \<^verbatim>\<open>HAP\<close> labels, \<^verbatim>\<open>get_gt\<close>
  returns \<^verbatim>\<open>'.'\<close> and raises nothing. A key that was missing now holds an empty tree;
  otherwise the dictionary is as it was.
\<close>

theorem get_gt_unknown_chrom:
  assumes "dd_tree map_tree (CHROM row) = []"
    and "hap \<notin> set (str_split (CHR '';'') (HAP row))"
  shows "fst (get_gt row hap map_tree) = ''.''
         \<and> snd (get_gt row hap map_tree)
             = (case map_tree (CHROM row) of
                  None \<Rightarrow> map_tree(CHROM row \<mapsto> [])
                | Some tree \<Rightarrow> map_tree)"
  using assms
  by (auto simp: get_gt_def dd_getitem_def dd_tree_def overlap_def split: option.splits)

theorem get_gt_unknown_chrom_witness:
  "get_gt \<lparr>label = Str ''v7'', CHROM = ''chrUn'', POS = 10, END = 20, HAP = ''h2'',
            HAP_VARIANTS = ''v7''\<rparr> ''h1'' [''chr1'' \<mapsto> [Interval 0 100]]
     = (''.'', [''chr1'' \<mapsto> [Interval 0 100], ''chrUn'' \<mapsto> []])"
proof -
  have "fst (get_gt \<lparr>label = Str ''v7'', CHROM = ''chrUn'', POS = 10, END = 20, HAP = ''h2'',
            HAP_VARIANTS = ''v7''\<rparr> ''h1'' [''chr1'' \<mapsto> [Interval 0 100]]) = ''.''
     \<and> snd (get_gt \<lparr>label = Str ''v7'', CHROM = ''chrUn'', POS = 10, END = 20, HAP = ''h2'',
            HAP_VARIANTS = ''v7''\<rparr> ''h1'' [''chr1'' \<mapsto> [Interval 0 100]])
         = [''chr1'' \<mapsto> [Interval 0 100], ''chrUn'' \<mapsto> []]"
    using get_gt_unknown_chrom [of "[''chr1'' \<mapsto> [Interval 0 100]]"
      "\<lparr>label = Str ''v7'', CHROM = ''chrUn'', POS = 10, END = 20, HAP = ''h2'',
            HAP_VARIANTS = ''v7''\<rparr>" "''h1''"]
    by (simp add: dd_tree_def)
  then show ?thesis by (simp add: prod_eq_iff)
qed

section \<open>Properties of \<^verbatim>\<open>filter_by_tig_tree\<close>\<close>

lemma region_hits_cong:
  "(\<And>k. dd_tree t' k = dd_tree t k) \<Longrightarrow> region_hits t' row = region_hits t row"
  by (simp add: region_hits_def split: option.splits prod.splits)

lemma scan_rows_ok:
  "list_all (\<lambda>(i, row). region_ok row) rows \<Longrightarrow>
     \<exists>t'. scan_rows rows t rm = Inr (rm \<union> hit_labels t rows, t')
        \<and> (\<forall>k. dd_tree t' k = dd_tree t k)"
proof (induction rows arbitrary: t rm)
  case Nil
  then show ?case by (simp add: hit_labels_def)
next
  case (Cons x rows)
  obtain i row where x: "x = (i, row)" by (cases x)
  from Cons.prems x obtain contig start stop where
    m: "match_tig_region (TIG_REGION row) = Some (contig, start, stop)"
    by (auto simp: region_ok_def)
  let ?t1 = "snd (dd_getitem t contig)"
  have same: "\<And>k. dd_tree ?t1 k = dd_tree t k"
    by (rule dd_tree_after_getitem)
  have rest: "list_all (\<lambda>(i, row). region_ok row) rows"
    using Cons.prems by simp
  have hl: "hit_labels ?t1 rows = hit_labels t rows"
    by (simp add: hit_labels_def region_hits_cong [OF same])
  have hit: "region_hits t row \<longleftrightarrow>
      getitem_slice (fst (dd_getitem t contig)) (int_of_digits start - 1) (int_of_digits stop) \<noteq> []"
    by (simp add: region_hits_def m fst_dd_getitem)
  show ?case
  proof (cases "region_hits t row")
    case True
    from Cons.IH [OF rest, of ?t1 "insert i rm"] obtain t' where
      "scan_rows rows ?t1 (insert i rm) = Inr (insert i rm \<union> hit_labels ?t1 rows, t')"
      "\<forall>k. dd_tree t' k = dd_tree ?t1 k" by blast
    with True hit same hl show ?thesis
      by (auto simp: x m hit_labels_def split: prod.splits)
  next
    case False
    from Cons.IH [OF rest, of ?t1 rm] obtain t' where
      "scan_rows rows ?t1 rm = Inr (rm \<union> hit_labels ?t1 rows, t')"
      "\<forall>k. dd_tree t' k = dd_tree ?t1 k" by blast
    with False hit same hl show ?thesis
      by (auto simp: x m hit_labels_def split: prod.splits)
  qed
qed

lemma scan_rows_bad:
  "find (\<lambda>(i, row). \<not> region_ok row) rows = Some (i, row) \<Longrightarrow>
     scan_rows rows t rm = Inl (RuntimeError (Unrecognized_TIG_REGION i (TIG_REGION row)))"
proof (induction rows arbitrary: t rm)
  case Nil
  then show ?case by simp
next
  case (Cons x rows)
  obtain j r where x: "x = (j, r)" by (cases x)
  show ?case
  proof (cases "region_ok r")
    case True
    then obtain contig start stop where
      m: "match_tig_region (TIG_REGION r) = Some (contig, start, stop)"
      by (auto simp: region_ok_def)
    from Cons.prems True x have "find (\<lambda>(i, row). \<not> region_ok row) rows = Some (i, row)"
      by simp
    from Cons.IH [OF this] show ?thesis
      by (simp add: x m split: prod.splits)
  next
    case False
    with Cons.prems x have "i = j" "row = r" by simp_all
    moreover from False have "match_tig_region (TIG_REGION r) = None"
      unfolding region_ok_def by blast
    ultimately show ?thesis by (simp add: x)
  qed
qed

lemma loc_not_in_hits:
  assumes "distinct (map fst rows)"
  shows "loc_not_in rows (hit_labels t rows) = filter (\<lambda>(i, row). \<not> region_hits t row) rows"
proof -
  have "(i \<notin> hit_labels t rows) = (\<not> region_hits t row)" if "(i, row) \<in> set rows" for i row
  proof
    assume "i \<notin> hit_labels t rows"
    with that show "\<not> region_hits t row" by (force simp: hit_labels_def)
  next
    assume no: "\<not> region_hits t row"
    show "i \<notin> hit_labels t rows"
    proof
      assume "i \<in> hit_labels t rows"
      then obtain row' where "(i, row') \<in> set rows" "region_hits t row'"
        by (auto simp: hit_labels_def)
      with assms that have "row' = row" by (meson eq_key_imp_eq_value)
      with \<open>region_hits t row'\<close> no show False by simp
    qed
  qed
  then show ?thesis
    unfolding loc_not_in_def by (intro filter_cong) auto
qed

lemma hit_labels_empty:
  "hit_labels t rows = {} \<longleftrightarrow> list_all (\<lambda>(i, row). \<not> region_hits t row) rows"
  by (auto simp: hit_labels_def list_all_iff filter_empty_conv)

lemma filter_by_tig_tree_ok:
  assumes "list_all (\<lambda>(i, row). region_ok row) (objs st df)"
  shows "\<exists>t'. (\<forall>k. dd_tree t' k = dd_tree t k) \<and>
     filter_by_tig_tree st df (Some t) =
       (if hit_labels t (objs st df) = {} then Inr (df, st, Some t')
        else Inr (fresh st,
                  st\<lparr>objs := (objs st)(fresh st := loc_not_in (objs st df) (hit_labels t (objs st df))),
                     fresh := Suc (fresh st)\<rparr>,
                  Some t'))"
proof -
  from scan_rows_ok [OF assms, of t "{}"] obtain t' where
    "scan_rows (objs st df) t {} = Inr (hit_labels t (objs st df), t')"
    "\<forall>k. dd_tree t' k = dd_tree t k" by auto
  then show ?thesis
    by (intro exI [of _ t']) (simp add: filter_by_tig_tree_def alloc_def)
qed

text \<open>The query of the filter in terms of positions: for a tree of proper intervals
  (the library refuses to store an interval with \<^verbatim>\<open>begin >= end\<close>), \<^verbatim>\<open>overlap(b, e)\<close> is
  not empty exactly when some stored interval shares a position with \<^verbatim>\<open>[b, e)\<close>.\<close>

lemma overlap_nonempty_iff:
  assumes "\<forall>iv \<in> set tree. iv_begin iv < iv_end iv"
  shows "overlap tree b e \<noteq> [] \<longleftrightarrow>
           (\<exists>iv \<in> set tree. \<exists>x. b \<le> x \<and> x < e \<and> iv_begin iv \<le> x \<and> x < iv_end iv)"
proof
  assume "overlap tree b e \<noteq> []"
  then obtain iv where iv: "iv \<in> set tree" "b < e" "iv_begin iv < e" "b < iv_end iv"
    by (auto simp: overlap_def filter_empty_conv split: if_splits)
  with assms have "iv_begin iv < iv_end iv" by blast
  with iv have "b \<le> max b (iv_begin iv) \<and> max b (iv_begin iv) < e
      \<and> iv_begin iv \<le> max b (iv_begin iv) \<and> max b (iv_begin iv) < iv_end iv"
    by auto
  with iv(1) show "\<exists>iv \<in> set tree. \<exists>x. b \<le> x \<and> x < e \<and> iv_begin iv \<le> x \<and> x < iv_end iv"
    by blast
next
  assume "\<exists>iv \<in> set tree. \<exists>x. b \<le> x \<and> x < e \<and> iv_begin iv \<le> x \<and> x < iv_end iv"
  then obtain iv x where "iv \<in> set tree" "b \<le> x" "x < e" "iv_begin iv \<le> x" "x < iv_end iv"
    by blast
  then have "iv \<in> set tree \<and> iv_begin iv < e \<and> b < iv_end iv \<and> b < e"
    by auto
  then show "overlap tree b e \<noteq> []"
    unfolding overlap_def by (auto simp: filter_empty_conv)
qed

text \<open>
  C7. Without an exclusion index (\<^verbatim>\<open>tig_filter_tree is None\<close>) the function returns the
  frame it was given: the same object, with the store, and so the frame, as they were.
\<close>

theorem filter_by_tig_tree_none:
  "filter_by_tig_tree st df None = Inr (df, st, None)"
  by (simp add: filter_by_tig_tree_def)

text \<open>
  C10. With an exclusion index, when every \<^verbatim>\<open>TIG_REGION\<close> parses and no row's query finds
  an interval, \<^verbatim>\<open>rm_index_set\<close> stays empty and the function returns the input frame
  itself: the same address, in an unchanged store. The dictionary may have gained empty
  trees for contigs it did not know, which stand for the same trees as before.
\<close>

theorem filter_by_tig_tree_no_hit:
  assumes "list_all (\<lambda>(i, row). region_ok row \<and> \<not> region_hits t row) (objs st df)"
  shows "\<exists>t'. filter_by_tig_tree st df (Some t) = Inr (df, st, Some t')
           \<and> (\<forall>k. dd_tree t' k = dd_tree t k)"
proof -
  from assms have ok: "list_all (\<lambda>(i, row). region_ok row) (objs st df)"
    and no: "list_all (\<lambda>(i, row). \<not> region_hits t row) (objs st df)"
    by (auto simp: list_all_iff)
  from no have "hit_labels t (objs st df) = {}" by (simp add: hit_labels_empty)
  with filter_by_tig_tree_ok [OF ok, of t] show ?thesis by auto
qed

lemma overlap_nonempty_max_min:
  assumes "list_all (\<lambda>iv. iv_begin iv < iv_end iv) tree"
  shows "overlap tree b e \<noteq> [] \<longleftrightarrow> list_ex (\<lambda>iv. max b (iv_begin iv) < min e (iv_end iv)) tree"
proof
  assume "overlap tree b e \<noteq> []"
  then obtain iv where iv: "iv \<in> set tree" "b < e" "iv_begin iv < e" "b < iv_end iv"
    by (auto simp: overlap_def filter_empty_conv split: if_splits)
  with assms have "iv_begin iv < iv_end iv" by (simp add: list_all_iff)
  with iv have "max b (iv_begin iv) < min e (iv_end iv)" by simp
  with iv(1) show "list_ex (\<lambda>iv. max b (iv_begin iv) < min e (iv_end iv)) tree"
    unfolding list_ex_iff by blast
next
  assume "list_ex (\<lambda>iv. max b (iv_begin iv) < min e (iv_end iv)) tree"
  then obtain iv where iv: "iv \<in> set tree" "max b (iv_begin iv) < min e (iv_end iv)"
    unfolding list_ex_iff by blast
  then have "iv \<in> set tree \<and> iv_begin iv < e \<and> iv_end iv > b \<and> b < e" by simp
  then have "iv \<in> set (filter (\<lambda>iv. iv_begin iv < e \<and> iv_end iv > b) tree) \<and> tree \<noteq> [] \<and> \<not> b \<ge> e"
    by auto
  then show "overlap tree b e \<noteq> []"
    unfolding overlap_def by (metis empty_iff list.set(1))
qed

lemma region_hits_meets:
  assumes "proper_trees t"
  shows "region_hits t row = region_meets t row"
proof (cases "match_tig_region (TIG_REGION row)")
  case None
  then show ?thesis by (simp add: region_hits_def region_meets_def)
next
  case (Some m)
  obtain contig start stop where m: "m = (contig, start, stop)" by (cases m)
  from assms have "list_all (\<lambda>iv. iv_begin iv < iv_end iv) (dd_tree t contig)"
    by (simp add: proper_trees_def)
  from overlap_nonempty_max_min [OF this] Some m show ?thesis
    by (simp add: region_hits_def region_meets_def getitem_slice_def)
qed

lemma scan_rows_Inr_ok:
  assumes "scan_rows rows t rm = Inr x"
  shows "list_all (\<lambda>(i, row). region_ok row) rows"
proof (rule ccontr)
  assume "\<not> list_all (\<lambda>(i, row). region_ok row) rows"
  then have "find (\<lambda>(i, row). \<not> region_ok row) rows \<noteq> None"
    by (auto simp: find_None_iff list_all_iff)
  then obtain i row where "find (\<lambda>(i, row). \<not> region_ok row) rows = Some (i, row)"
    by auto
  from scan_rows_bad [OF this, of t rm] assms show False by simp
qed

lemma filter_by_tig_tree_Inr_ok:
  assumes "filter_by_tig_tree st df (Some t) = Inr r"
  shows "list_all (\<lambda>(i, row). region_ok row) (objs st df)"
proof -
  from assms obtain x where "scan_rows (objs st df) t {} = Inr x"
    by (auto simp: filter_by_tig_tree_def split: sum.splits)
  then show ?thesis by (rule scan_rows_Inr_ok)
qed

lemma filter_by_tig_tree_rows:
  assumes labels: "distinct (map fst (objs st df))"
    and ret: "filter_by_tig_tree st df (Some t) = Inr (new, st', t')"
  shows "objs st' new = filter (\<lambda>(i, row). \<not> region_hits t row) (objs st df)"
    and "new = df \<or> new = fresh st"
    and "\<forall>a. a \<noteq> fresh st \<longrightarrow> objs st' a = objs st a"
proof -
  from ret have ok: "list_all (\<lambda>(i, row). region_ok row) (objs st df)"
    by (rule filter_by_tig_tree_Inr_ok)
  from filter_by_tig_tree_ok [OF ok, of t] obtain t1 where
    r: "filter_by_tig_tree st df (Some t) =
       (if hit_labels t (objs st df) = {} then Inr (df, st, Some t1)
        else Inr (fresh st,
                  st\<lparr>objs := (objs st)(fresh st := loc_not_in (objs st df) (hit_labels t (objs st df))),
                     fresh := Suc (fresh st)\<rparr>,
                  Some t1))" by blast
  show "objs st' new = filter (\<lambda>(i, row). \<not> region_hits t row) (objs st df)"
  proof (cases "hit_labels t (objs st df) = {}")
    case True
    then have "filter (\<lambda>(i, row). \<not> region_hits t row) (objs st df) = objs st df"
      by (simp add: hit_labels_empty list_all_iff case_prod_unfold)
    with r ret True show ?thesis by simp
  next
    case False
    with r ret loc_not_in_hits [OF labels, of t] show ?thesis by auto
  qed
  from r ret show "new = df \<or> new = fresh st" by (auto split: if_splits)
  from r ret show "\<forall>a. a \<noteq> fresh st \<longrightarrow> objs st' a = objs st a" by (auto split: if_splits)
qed

text \<open>
  C6. For a call set whose index labels are pairwise distinct (the rows are keyed by a
  unique identifier) and an exclusion index: when every \<^verbatim>\<open>TIG_REGION\<close> parses the function
  returns; and whenever it returns, a row of the input is in the frame returned if and
  only if its query \<^verbatim>\<open>tree[contig][start - 1:end]\<close> found no interval, the frame returned
  being the input rows with an empty query, with their labels and values and in their
  order; it is the input object or a new one, and no frame that existed is changed. For
  proper trees the query finds an interval exactly when \<^verbatim>\<open>[start - 1, end)\<close> and an interval
  stored for the contig have a position in common.
\<close>

theorem filter_by_tig_tree_exclusive:
  assumes labels: "distinct (map fst (objs st df))"
  shows "(list_all (\<lambda>(i, row). region_ok row) (objs st df) \<longrightarrow>
            (\<exists>new st' t'. filter_by_tig_tree st df (Some t) = Inr (new, st', Some t')))
       \<and> (filter_by_tig_tree st df (Some t) = Inr (new, st', t') \<longrightarrow>
            (\<forall>(i, row) \<in> set (objs st df).
                (i, row) \<in> set (objs st' new) \<longleftrightarrow> \<not> region_hits t row)
            \<and> objs st' new = filter (\<lambda>(i, row). \<not> region_hits t row) (objs st df)
            \<and> (new = df \<or> new = fresh st)
            \<and> (\<forall>a. a \<noteq> fresh st \<longrightarrow> objs st' a = objs st a))
       \<and> (proper_trees t \<longrightarrow> (\<forall>row :: 'a call_row. region_hits t row = region_meets t row))"
proof (intro conjI impI)
  assume "list_all (\<lambda>(i, row). region_ok row) (objs st df)"
  from filter_by_tig_tree_ok [OF this, of t]
  show "\<exists>new st' t'. filter_by_tig_tree st df (Some t) = Inr (new, st', Some t')"
    by (cases "hit_labels t (objs st df) = {}") auto
next
  assume ret: "filter_by_tig_tree st df (Some t) = Inr (new, st', t')"
  note rows = filter_by_tig_tree_rows [OF labels ret]
  show "objs st' new = filter (\<lambda>(i, row). \<not> region_hits t row) (objs st df)"
    by (rule rows(1))
  then show "\<forall>(i, row) \<in> set (objs st df).
      (i, row) \<in> set (objs st' new) \<longleftrightarrow> \<not> region_hits t row"
    by auto
  show "new = df \<or> new = fresh st" by (rule rows(2))
  show "\<forall>a. a \<noteq> fresh st \<longrightarrow> objs st' a = objs st a" by (rule rows(3))
next
  assume "proper_trees t"
  then show "\<forall>row :: 'a call_row. region_hits t row = region_meets t row"
    by (simp add: region_hits_meets)
qed

text \<open>
  C8. With an exclusion index, when some row's \<^verbatim>\<open>TIG_REGION\<close> does not match the
  pattern, the function raises \<^verbatim>\<open>RuntimeError\<close>; the message carries the index label and
  the raw \<^verbatim>\<open>TIG_REGION\<close> of the first such row in iteration order. No frame is returned.
\<close>

theorem filter_by_tig_tree_malformed:
  assumes "(j, bad) \<in> set (objs st df)" and "\<not> region_ok bad"
  shows "\<exists>i row. find (\<lambda>(i, row). \<not> region_ok row) (objs st df) = Some (i, row)
           \<and> filter_by_tig_tree st df (Some t)
                = Inl (RuntimeError (Unrecognized_TIG_REGION i (TIG_REGION row)))"
proof -
  from assms have "find (\<lambda>(i, row). \<not> region_ok row) (objs st df) \<noteq> None"
    unfolding find_None_iff by blast
  then obtain i row where f: "find (\<lambda>(i, row). \<not> region_ok row) (objs st df) = Some (i, row)"
    by auto
  from scan_rows_bad [OF this] have "filter_by_tig_tree st df (Some t)
                = Inl (RuntimeError (Unrecognized_TIG_REGION i (TIG_REGION row)))"
    by (simp add: filter_by_tig_tree_def)
  with f show ?thesis by blast
qed

text \<open>The definitions a concrete call of the filter unfolds.\<close>

lemmas filter_eval =
  filter_by_tig_tree_def match_tig_region_def Let_def is_digit_def int_of_digits_def
  dd_getitem_def getitem_slice_def overlap_def loc_not_in_def alloc_def region_ok_def
  region_hits_def dd_tree_def

theorem filter_by_tig_tree_none_witness:
  "filter_by_tig_tree
      \<lparr>objs = (\<lambda>_. [])(0 := [(Str ''v1'', \<lparr>TIG_REGION = ''not a region'', other_columns = ()\<rparr>)]),
       fresh = 1\<rparr> 0 None
   = Inr (0, \<lparr>objs = (\<lambda>_. [])(0 := [(Str ''v1'', \<lparr>TIG_REGION = ''not a region'', other_columns = ()\<rparr>)]),
       fresh = 1\<rparr>, None)"
  using filter_by_tig_tree_none [of "\<lparr>objs = (\<lambda>_. [])(0 := [(Str ''v1'', \<lparr>TIG_REGION = ''not a region'', other_columns = ()\<rparr>)]),
       fresh = 1\<rparr>" 0]
  by simp

theorem filter_by_tig_tree_no_hit_witness:
  "filter_by_tig_tree
      \<lparr>objs = (\<lambda>_. [])(0 := [(Str ''v2'', \<lparr>TIG_REGION = ''tig1:100-200'', other_columns = ()\<rparr>),
                              (Str ''v3'', \<lparr>TIG_REGION = ''tig2:5-9'', other_columns = ()\<rparr>)]),
       fresh = 1\<rparr> 0 (Some [''tig1'' \<mapsto> [Interval 0 5]])
   = Inr (0,
      \<lparr>objs = (\<lambda>_. [])(0 := [(Str ''v2'', \<lparr>TIG_REGION = ''tig1:100-200'', other_columns = ()\<rparr>),
                              (Str ''v3'', \<lparr>TIG_REGION = ''tig2:5-9'', other_columns = ()\<rparr>)]),
       fresh = 1\<rparr>,
      Some [''tig1'' \<mapsto> [Interval 0 5], ''tig2'' \<mapsto> []])"
  using filter_by_tig_tree_no_hit [of "[''tig1'' \<mapsto> [Interval 0 5]]"
      "\<lparr>objs = (\<lambda>_. [])(0 := [(Str ''v2'', \<lparr>TIG_REGION = ''tig1:100-200'', other_columns = ()\<rparr>),
                              (Str ''v3'', \<lparr>TIG_REGION = ''tig2:5-9'', other_columns = ()\<rparr>)]),
       fresh = 1\<rparr>" 0]
  by (simp add: filter_eval)

theorem filter_by_tig_tree_exclusive_witness:
  "distinct (map fst [(Str ''v1'', \<lparr>TIG_REGION = ''tig1:1-10'', other_columns = ()\<rparr>),
                      (Str ''v2'', \<lparr>TIG_REGION = ''tig1:100-200'', other_columns = ()\<rparr>),
                      (Str ''v3'', \<lparr>TIG_REGION = ''tig2:5-9'', other_columns = ()\<rparr>)])
   \<and> proper_trees [''tig1'' \<mapsto> [Interval 0 5]]
   \<and> region_meets [''tig1'' \<mapsto> [Interval 0 5]] \<lparr>TIG_REGION = ''tig1:1-10'', other_columns = ()\<rparr>
   \<and> \<not> region_meets [''tig1'' \<mapsto> [Interval 0 5]]
          \<lparr>TIG_REGION = ''tig1:100-200'', other_columns = ()\<rparr>
   \<and> \<not> region_meets [''tig1'' \<mapsto> [Interval 0 5]] \<lparr>TIG_REGION = ''tig2:5-9'', other_columns = ()\<rparr>
   \<and> filter_by_tig_tree
      \<lparr>objs = (\<lambda>_. [])(0 := [(Str ''v1'', \<lparr>TIG_REGION = ''tig1:1-10'', other_columns = ()\<rparr>),
                              (Str ''v2'', \<lparr>TIG_REGION = ''tig1:100-200'', other_columns = ()\<rparr>),
                              (Str ''v3'', \<lparr>TIG_REGION = ''tig2:5-9'', other_columns = ()\<rparr>)]),
       fresh = 1\<rparr> 0 (Some [''tig1'' \<mapsto> [Interval 0 5]])
   = Inr (1,
      \<lparr>objs = (\<lambda>_. [])(0 := [(Str ''v1'', \<lparr>TIG_REGION = ''tig1:1-10'', other_columns = ()\<rparr>),
                              (Str ''v2'', \<lparr>TIG_REGION = ''tig1:100-200'', other_columns = ()\<rparr>),
                              (Str ''v3'', \<lparr>TIG_REGION = ''tig2:5-9'', other_columns = ()\<rparr>)],
                        1 := [(Str ''v2'', \<lparr>TIG_REGION = ''tig1:100-200'', other_columns = ()\<rparr>),
                              (Str ''v3'', \<lparr>TIG_REGION = ''tig2:5-9'', other_columns = ()\<rparr>)]),
       fresh = 2\<rparr>,
      Some [''tig1'' \<mapsto> [Interval 0 5], ''tig2'' \<mapsto> []])"
  using filter_by_tig_tree_exclusive [of
      "\<lparr>objs = (\<lambda>_. [])(0 := [(Str ''v1'', \<lparr>TIG_REGION = ''tig1:1-10'', other_columns = ()\<rparr>),
                              (Str ''v2'', \<lparr>TIG_REGION = ''tig1:100-200'', other_columns = ()\<rparr>),
                              (Str ''v3'', \<lparr>TIG_REGION = ''tig2:5-9'', other_columns = ()\<rparr>)]),
       fresh = 1\<rparr>" 0 "[''tig1'' \<mapsto> [Interval 0 5]]" 1
      "\<lparr>objs = (\<lambda>_. [])(0 := [(Str ''v1'', \<lparr>TIG_REGION = ''tig1:1-10'', other_columns = ()\<rparr>),
                              (Str ''v2'', \<lparr>TIG_REGION = ''tig1:100-200'', other_columns = ()\<rparr>),
                              (Str ''v3'', \<lparr>TIG_REGION = ''tig2:5-9'', other_columns = ()\<rparr>)],
                        1 := [(Str ''v2'', \<lparr>TIG_REGION = ''tig1:100-200'', other_columns = ()\<rparr>),
                              (Str ''v3'', \<lparr>TIG_REGION = ''tig2:5-9'', other_columns = ()\<rparr>)]),
       fresh = 2\<rparr>"
      "Some [''tig1'' \<mapsto> [Interval 0 5], ''tig2'' \<mapsto> []]"]
  by (simp add: filter_eval proper_trees_def region_meets_def)

theorem filter_by_tig_tree_malformed_witness:
  "filter_by_tig_tree
      \<lparr>objs = (\<lambda>_. [])(0 := [(Str ''v1'', \<lparr>TIG_REGION = ''tig1:1-10'', other_columns = ()\<rparr>),
                              (Str ''v2'', \<lparr>TIG_REGION = ''tig1:100'', other_columns = ()\<rparr>),
                              (Str ''v3'', \<lparr>TIG_REGION = ''tig1:5-x'', other_columns = ()\<rparr>)]),
       fresh = 1\<rparr> 0 (Some [''tig1'' \<mapsto> [Interval 0 5]])
   = Inl (RuntimeError (Unrecognized_TIG_REGION (Str ''v2'') ''tig1:100''))"
  using filter_by_tig_tree_malformed [of "Str ''v3''" "\<lparr>TIG_REGION = ''tig1:5-x'', other_columns = ()\<rparr>"
      "\<lparr>objs = (\<lambda>_. [])(0 := [(Str ''v1'', \<lparr>TIG_REGION = ''tig1:1-10'', other_columns = ()\<rparr>),
                              (Str ''v2'', \<lparr>TIG_REGION = ''tig1:100'', other_columns = ()\<rparr>),
                              (Str ''v3'', \<lparr>TIG_REGION = ''tig1:5-x'', other_columns = ()\<rparr>)]),
       fresh = 1\<rparr>" 0 "[''tig1'' \<mapsto> [Interval 0 5]]"]
  by (simp add: filter_eval)

section \<open>Properties of \<^verbatim>\<open>val_per_hap\<close>\<close>

lemma apply_each_Inr_D:
  "apply_each f xs = Inr ys \<Longrightarrow> list_all2 (\<lambda>x y. f x = Inr y) xs ys"
  by (induction xs arbitrary: ys) (auto split: sum.splits)

lemma apply_each_Inr_I:
  "list_all2 (\<lambda>x y. f x = Inr y) xs ys \<Longrightarrow> apply_each f xs = Inr ys"
  by (induction rule: list_all2_induct) auto

lemma apply_each_Inl_elem:
  "apply_each f xs = Inl e \<Longrightarrow> \<exists>x \<in> set xs. f x = Inl e"
  by (induction xs) (auto split: sum.splits)

lemma apply_each_fails:
  "x \<in> set xs \<Longrightarrow> f x = Inl e \<Longrightarrow> \<exists>e'. apply_each f xs = Inl e'"
  by (induction xs) (auto split: sum.splits)

lemma hap_value_Inr_iff:
  "hap_value (df_dict df_h1 df_h2) col_name val = Inr v \<longleftrightarrow> spec_source_value df_h1 df_h2 col_name val v"
  by (auto simp: hap_value_def df_dict_def spec_source_value_def loc_def split: option.splits)

lemma hap_value_Inl: "hap_value d col_name val = Inl e \<Longrightarrow> e = KeyError"
  by (auto simp: hap_value_def loc_def split: option.splits)

lemma join_values_Inr:
  "list_all2 (spec_source_value df_h1 df_h2 col_name) val_list vs \<Longrightarrow>
     join_values (df_dict df_h1 df_h2) col_name delim val_list = Inr (str_join delim vs)"
proof -
  assume "list_all2 (spec_source_value df_h1 df_h2 col_name) val_list vs"
  then have "list_all2 (\<lambda>x y. hap_value (df_dict df_h1 df_h2) col_name x = Inr y) val_list vs"
    by (simp add: hap_value_Inr_iff)
  then have "apply_each (hap_value (df_dict df_h1 df_h2) col_name) val_list = Inr vs"
    by (rule apply_each_Inr_I)
  then show ?thesis by (simp add: join_values_def)
qed

lemma join_values_Inl:
  assumes "join_values d col_name delim val_list = Inl e"
  shows "e = KeyError"
proof -
  from assms have "apply_each (hap_value d col_name) val_list = Inl e"
    by (simp add: join_values_def split: sum.splits)
  from apply_each_Inl_elem [OF this] obtain val where "hap_value d col_name val = Inl e"
    by blast
  then show ?thesis by (rule hap_value_Inl)
qed

lemma val_per_hap_row_value:
  "val_per_hap df df_h1 df_h2 col_name delim =
     apply_each (row_value (df_dict df_h1 df_h2) col_name delim)
       (map (\<lambda>row. (label row, hap_pairs row)) df)"
  by (simp add: val_per_hap_def)

lemma row_value_Inl: "row_value d col_name delim x = Inl e \<Longrightarrow> e = KeyError"
  by (cases x) (auto simp: row_value_def split: sum.splits dest: join_values_Inl)

lemma val_per_hap_Inl:
  assumes "val_per_hap df df_h1 df_h2 col_name delim = Inl e"
  shows "e = KeyError"
proof -
  from assms have "apply_each (row_value (df_dict df_h1 df_h2) col_name delim)
       (map (\<lambda>row. (label row, hap_pairs row)) df) = Inl e"
    by (simp only: val_per_hap_row_value)
  from apply_each_Inl_elem [OF this]
  obtain x where "row_value (df_dict df_h1 df_h2) col_name delim x = Inl e"
    by blast
  then show ?thesis by (rule row_value_Inl)
qed

lemma val_per_hap_rows:
  assumes "list_all2 (\<lambda>row vs. list_all2 (spec_source_value df_h1 df_h2 col_name) (hap_pairs row) vs)
             df vss"
  shows "val_per_hap df df_h1 df_h2 col_name delim =
           Inr (map2 (\<lambda>row vs. (label row, str_join delim vs)) df vss)"
proof -
  from assms have "list_all2
      (\<lambda>x y. row_value (df_dict df_h1 df_h2) col_name delim x = Inr y)
      (map (\<lambda>row. (label row, hap_pairs row)) df)
      (map2 (\<lambda>row vs. (label row, str_join delim vs)) df vss)"
  proof (induction df vss rule: list_all2_induct)
    case Nil
    then show ?case by simp
  next
    case (Cons row df vs vss)
    then show ?case by (simp add: join_values_Inr row_value_def)
  qed
  then show ?thesis
    unfolding val_per_hap_row_value by (rule apply_each_Inr_I)
qed

lemma val_per_hap_fails:
  assumes "row \<in> set df" and "val \<in> set (hap_pairs row)"
    and "hap_value (df_dict df_h1 df_h2) col_name val = (Inl e :: py_error + string)"
  shows "val_per_hap df df_h1 df_h2 col_name delim = Inl KeyError"
proof -
  from apply_each_fails [of val "hap_pairs row" "hap_value (df_dict df_h1 df_h2) col_name" e]
    assms(2,3) obtain e1 where
    "apply_each (hap_value (df_dict df_h1 df_h2) col_name) (hap_pairs row) = Inl e1"
    by blast
  then have "row_value (df_dict df_h1 df_h2) col_name delim (label row, hap_pairs row) = Inl e1"
    by (simp add: join_values_def row_value_def)
  moreover from assms(1)
  have "(label row, hap_pairs row) \<in> set (map (\<lambda>row. (label row, hap_pairs row)) df)"
    by simp
  ultimately obtain e2 where "val_per_hap df df_h1 df_h2 col_name delim = Inl e2"
    unfolding val_per_hap_row_value
    using apply_each_fails [of "(label row, hap_pairs row)"
        "map (\<lambda>row. (label row, hap_pairs row)) df"
        "row_value (df_dict df_h1 df_h2) col_name delim" e1]
    by blast
  then show ?thesis using val_per_hap_Inl by blast
qed

lemma hap_pairs_aligned:
  assumes "length (str_split (CHR '';'') (HAP_VARIANTS row)) = length (str_split (CHR '';'') (HAP row))"
  shows "map fst (hap_pairs row) = str_split (CHR '';'') (HAP row)"
    and "map snd (hap_pairs row) = str_split (CHR '';'') (HAP_VARIANTS row)"
  using assms by (simp_all add: hap_pairs_def)

text \<open>
  C4. When every pair of a row's \<^verbatim>\<open>HAP\<close> label and \<^verbatim>\<open>HAP_VARIANTS\<close> identifier (paired by
  position) has a value \<open>vs\<close> of the named column in the table of that label,
  \<^verbatim>\<open>val_per_hap\<close> returns one value for each row, under the row's label and in the rows'
  order: the values \<open>vs\<close> joined by the delimiter in the order of the pairs. For a row
  with as many identifiers as labels the pairs list the labels of \<^verbatim>\<open>HAP\<close> in their order,
  each with the identifier at its position.
\<close>

theorem val_per_hap_order:
  assumes "list_all2
             (\<lambda>row vs. list_all2 (spec_source_value df_h1 df_h2 col_name) (hap_pairs row) vs) df vss"
  shows "val_per_hap df df_h1 df_h2 col_name delim
           = Inr (map2 (\<lambda>row vs. (label row, str_join delim vs)) df vss)
         \<and> (\<forall>row \<in> set df.
               length (str_split (CHR '';'') (HAP_VARIANTS row))
                 = length (str_split (CHR '';'') (HAP row)) \<longrightarrow>
               map fst (hap_pairs row) = str_split (CHR '';'') (HAP row)
               \<and> map snd (hap_pairs row) = str_split (CHR '';'') (HAP_VARIANTS row))"
  using val_per_hap_rows [OF assms] hap_pairs_aligned by blast

theorem val_per_hap_order_witness:
  "val_per_hap
      [\<lparr>label = Str ''m1'', CHROM = ''chr1'', POS = 100, END = 200, HAP = ''h1;h2'',
         HAP_VARIANTS = ''v1;v9''\<rparr>,
       \<lparr>label = Str ''m2'', CHROM = ''chr1'', POS = 500, END = 600, HAP = ''h2'',
         HAP_VARIANTS = ''v3''\<rparr>]
      [''v1'' \<mapsto> [''CI'' \<mapsto> ''0,5'']]
      [''v9'' \<mapsto> [''CI'' \<mapsto> ''0,3''], ''v3'' \<mapsto> [''CI'' \<mapsto> ''1,1'']]
      ''CI'' '';''
    = Inr [(Str ''m1'', ''0,5;0,3''), (Str ''m2'', ''1,1'')]"
  using val_per_hap_order [of "[''v1'' \<mapsto> [''CI'' \<mapsto> ''0,5'']]"
      "[''v9'' \<mapsto> [''CI'' \<mapsto> ''0,3''], ''v3'' \<mapsto> [''CI'' \<mapsto> ''1,1'']]"
      "''CI''"
      "[\<lparr>label = Str ''m1'', CHROM = ''chr1'', POS = 100, END = 200, HAP = ''h1;h2'',
         HAP_VARIANTS = ''v1;v9''\<rparr>,
       \<lparr>label = Str ''m2'', CHROM = ''chr1'', POS = 500, END = 600, HAP = ''h2'',
         HAP_VARIANTS = ''v3''\<rparr>]"
      "[[''0,5'', ''0,3''], [''1,1'']]" "'';''"]
  by (simp add: hap_pairs_def spec_source_value_def)

text \<open>
  C5. When some row has an identifier, paired with the label \<^verbatim>\<open>h1\<close> or \<^verbatim>\<open>h2\<close>, that is
  not in the index of that label's table, \<^verbatim>\<open>val_per_hap\<close> raises \<^verbatim>\<open>KeyError\<close>: no series
  is returned, for this row or any other.
\<close>

theorem val_per_hap_dangling:
  assumes "row \<in> set df" and "(hap, ident) \<in> set (hap_pairs row)"
    and "df_dict df_h1 df_h2 hap = Some table" and "table ident = None"
  shows "val_per_hap df df_h1 df_h2 col_name delim = Inl KeyError"
proof -
  from assms(3,4)
  have "hap_value (df_dict df_h1 df_h2) col_name (hap, ident) = (Inl KeyError :: py_error + string)"
    by (simp add: hap_value_def loc_def)
  with assms(1,2) show ?thesis by (rule val_per_hap_fails)
qed

theorem val_per_hap_dangling_witness:
  "val_per_hap
      [\<lparr>label = Str ''m2'', CHROM = ''chr1'', POS = 500, END = 600, HAP = ''h1'',
         HAP_VARIANTS = ''v1''\<rparr>,
       \<lparr>label = Str ''m1'', CHROM = ''chr1'', POS = 100, END = 200, HAP = ''h1;h2'',
         HAP_VARIANTS = ''v1;v9''\<rparr>]
      [''v1'' \<mapsto> [''CI'' \<mapsto> ''0,5'']]
      [''v3'' \<mapsto> [''CI'' \<mapsto> ''1,1'']]
      ''CI'' '';''
    = Inl KeyError"
  using val_per_hap_dangling [of
      "\<lparr>label = Str ''m1'', CHROM = ''chr1'', POS = 100, END = 200, HAP = ''h1;h2'',
         HAP_VARIANTS = ''v1;v9''\<rparr>"
      "[\<lparr>label = Str ''m2'', CHROM = ''chr1'', POS = 500, END = 600, HAP = ''h1'',
         HAP_VARIANTS = ''v1''\<rparr>,
       \<lparr>label = Str ''m1'', CHROM = ''chr1'', POS = 100, END = 200, HAP = ''h1;h2'',
         HAP_VARIANTS = ''v1;v9''\<rparr>]"
      "''h2''" "''v9''"
      "[''v1'' \<mapsto> [''CI'' \<mapsto> ''0,5'']]"
      "[''v3'' \<mapsto> [''CI'' \<mapsto> ''1,1'']]"
      "[''v3'' \<mapsto> [''CI'' \<mapsto> ''1,1'']]" "''CI''" "'';''"]
  by (simp add: hap_pairs_def df_dict_def)

section \<open>Properties of \<^verbatim>\<open>merge_haplotypes\<close>\<close>

lemma and_then_InrE:
  assumes "and_then m f = Inr y"
  obtains x where "m = Inr x" and "f x = Inr y"
  using assms by (cases m) (auto simp: and_then_def)

lemma and_then_Inr [simp]: "and_then (Inr x) f = f x"
  by (simp add: and_then_def)

lemma and_then_Inl [simp]: "and_then (Inl e) f = Inl e"
  by (simp add: and_then_def)

lemma check_gt_Inr: "check_gt df = Inr df' \<Longrightarrow> df' = df \<and> no_0_0 df"
  by (auto simp: check_gt_def no_0_0_def list_ex_iff list_all_iff split: if_splits)

lemma del_column_no_0_0:
  "del_column c df = Inr df' \<Longrightarrow> c \<noteq> ''GT'' \<Longrightarrow> no_0_0 df \<Longrightarrow> no_0_0 df'"
  by (auto simp: del_column_def no_0_0_def list_all_iff split: if_splits)

lemma genotype_columns_no_0_0:
  assumes "genotype_columns vs df_map_h1 df_map_h2 df = Inr out"
  shows "no_0_0 out"
proof -
  from assms obtain df3 d1 d2 where
    c: "check_gt df3 = Inr d1" and
    g1: "del_column ''GT_H1'' d1 = Inr d2" and
    g2: "del_column ''GT_H2'' d2 = Inr out"
    unfolding genotype_columns_def Let_def by (elim and_then_InrE) blast
  from c have n1: "no_0_0 d1" using check_gt_Inr by blast
  have n2: "no_0_0 d2" by (rule del_column_no_0_0 [OF g1 _ n1]) simp
  show ?thesis by (rule del_column_no_0_0 [OF g2 _ n2]) simp
qed

lemma fill_rows_no_0_0:
  assumes "fill_rows is_inv h1 h2 df_map_h1 df_map_h2 df = Inr out"
  shows "no_0_0 out"
  using assms unfolding fill_rows_def
  by (elim and_then_InrE) (rule genotype_columns_no_0_0)

lemma frame_rows_set_column_nan:
  "frame_rows df = [] \<Longrightarrow> frame_rows (set_column_nan c df) = []"
  by (simp add: set_column_nan_def set_column_def)

lemma frame_rows_del_column:
  "del_column c df = Inr df' \<Longrightarrow> frame_rows df = [] \<Longrightarrow> frame_rows df' = []"
  by (auto simp: del_column_def split: if_splits)

lemma fill_empty_rows:
  assumes "fill_empty is_inv df = Inr out" and "frame_rows df = []"
  shows "frame_rows out = []"
proof -
  let ?d6 = "set_column_nan ''CALL_SOURCE'' (set_column_nan ''CLUSTER_MATCH''
             (set_column_nan ''ALIGN_INDEX'' (set_column_nan ''CI''
             (set_column_nan ''QUERY_STRAND'' (set_column_nan ''TIG_REGION'' df)))))"
  have e6: "frame_rows ?d6 = []"
    using assms(2) by (simp add: frame_rows_set_column_nan)
  show ?thesis
  proof (cases is_inv)
    case False
    with assms(1) have "out = set_column_nan ''GT'' ?d6"
      by (simp add: fill_empty_def)
    with e6 show ?thesis by (simp add: frame_rows_set_column_nan)
  next
    case True
    with assms(1) obtain a b c d where
      "del_column ''RGN_REF_DISC'' ?d6 = Inr a" "del_column ''RGN_TIG_DISC'' a = Inr b"
      "del_column ''FLAG_ID'' b = Inr c" "del_column ''FLAG_TYPE'' c = Inr d"
      "out = set_column_nan ''GT'' (set_column_nan ''RGN_TIG_INNER'' (set_column_nan ''RGN_REF_INNER'' d))"
      unfolding fill_empty_def by (simp only: and_then_Inr if_True) (elim and_then_InrE, auto)
    with e6 show ?thesis
      by (simp add: frame_rows_set_column_nan frame_rows_del_column)
  qed
qed

lemma merge_haplotypes_result_no_0_0:
  assumes "merge_haplotypes merged h1 h2 df_map_h1 df_map_h2 is_inv = Inr out"
  shows "no_0_0 out"
proof -
  from assms obtain flag df where
    "is_inv = Some flag" and "restructure flag merged = Inr df" and
    r: "(if frame_rows df \<noteq> [] then fill_rows flag h1 h2 df_map_h1 df_map_h2 df
         else fill_empty flag df) = Inr out"
    unfolding merge_haplotypes_def by (cases is_inv) (auto elim: and_then_InrE)
  show ?thesis
  proof (cases "frame_rows df = []")
    case True
    with r have "frame_rows out = []" by (simp add: fill_empty_rows)
    then show ?thesis by (simp add: no_0_0_def)
  next
    case False
    with r show ?thesis by (simp add: fill_rows_no_0_0)
  qed
qed

lemma column_cells_set_column:
  "length vals = length (frame_rows df) \<Longrightarrow> column_cells c (set_column c vals df) = map Some vals"
proof -
  assume l: "length vals = length (frame_rows df)"
  have "map (\<lambda>r. map_of (row_cells r) c)
          (map2 (\<lambda>r v. r\<lparr>row_cells := AList.update c v (row_cells r)\<rparr>) rs vals) = map Some vals"
    if "length vals = length rs" for rs :: "merge_row list"
    using that
  proof (induction rs arbitrary: vals)
    case Nil
    then show ?case by simp
  next
    case (Cons r rs)
    then show ?case by (cases vals) (simp_all add: AList.update_conv')
  qed
  with l show ?thesis by (simp add: column_cells_def set_column_def)
qed

lemma length_set_column:
  "length vals = length (frame_rows df) \<Longrightarrow> length (frame_rows (set_column c vals df)) = length vals"
  by (simp add: set_column_def)

lemma length_apply_get_gt: "length (fst (apply_get_gt vs hap t)) = length vs"
proof (induction vs arbitrary: t)
  case Nil
  then show ?case by simp
next
  case (Cons row vs)
  obtain gt t' where g: "get_gt row hap t = (gt, t')" by (cases "get_gt row hap t")
  obtain gts t'' where a: "apply_get_gt vs hap t' = (gts, t'')"
    by (cases "apply_get_gt vs hap t'")
  from Cons.IH [of t'] a have "length gts = length vs" by simp
  with g a show ?case by simp
qed

lemma check_gt_column_cells:
  "Some (Str ''0|0'') \<in> set (column_cells ''GT'' df) \<Longrightarrow> check_gt df = Inl (RuntimeError Program_Bug_0_0)"
  by (auto simp: check_gt_def column_cells_def list_ex_iff)

lemma genotype_columns_bug:
  assumes t1: "load_map_tree df_map_h1 Map.empty = Inr map_tree_h1"
    and t2: "load_map_tree df_map_h2 Map.empty = Inr map_tree_h2"
    and len: "length vs = length (frame_rows df)"
    and bug: "''0|0'' \<in> set (map2 format_gt (fst (apply_get_gt vs ''h1'' map_tree_h1))
                              (fst (apply_get_gt vs ''h2'' map_tree_h2)))"
  shows "genotype_columns vs df_map_h1 df_map_h2 df = Inl (RuntimeError Program_Bug_0_0)"
proof -
  let ?g1 = "fst (apply_get_gt vs ''h1'' map_tree_h1)"
  let ?g2 = "fst (apply_get_gt vs ''h2'' map_tree_h2)"
  let ?df1 = "set_column ''GT_H1'' (map Str ?g1) df"
  let ?df2 = "set_column ''GT_H2'' (map Str ?g2) ?df1"
  let ?df3 = "set_column ''GT'' (map Str (map2 format_gt ?g1 ?g2)) ?df2"
  have l1: "length (frame_rows ?df1) = length vs"
    using len by (simp add: length_set_column length_apply_get_gt)
  have l2: "length (frame_rows ?df2) = length vs"
    using l1 by (simp add: length_set_column length_apply_get_gt)
  have "column_cells ''GT'' ?df3 = map Some (map Str (map2 format_gt ?g1 ?g2))"
    using l2 by (intro column_cells_set_column) (simp add: length_apply_get_gt)
  with bug have "Some (Str ''0|0'') \<in> set (column_cells ''GT'' ?df3)"
    by (simp add: image_iff) 
  then have "check_gt ?df3 = Inl (RuntimeError Program_Bug_0_0)"
    by (rule check_gt_column_cells)
  then show ?thesis
    by (simp add: genotype_columns_def t1 t2 Let_def)
qed

text \<open>
  C2. No row of a frame that \<^verbatim>\<open>merge_haplotypes\<close> returns has \<^verbatim>\<open>GT\<close> equal to \<^verbatim>\<open>"0|0"\<close>.
  And in the branch for a frame with rows, once the mappability trees are loaded: when
  one of the assembled strings \<^verbatim>\<open>'{}|{}'.format(GT_H1, GT_H2)\<close> is \<^verbatim>\<open>"0|0"\<close>, the step
  raises the \<^verbatim>\<open>RuntimeError\<close> whose message starts \<^verbatim>\<open>Program bug\<close>, and nothing is
  returned.
\<close>

theorem merge_haplotypes_no_0_0:
  "(merge_haplotypes merged h1 h2 df_map_h1 df_map_h2 is_inv = Inr out \<longrightarrow>
      (\<forall>r \<in> set (frame_rows out). map_of (row_cells r) ''GT'' \<noteq> Some (Str ''0|0'')))
   \<and> (load_map_tree df_map_h1 Map.empty = Inr map_tree_h1 \<longrightarrow>
      load_map_tree df_map_h2 Map.empty = Inr map_tree_h2 \<longrightarrow>
      length vs = length (frame_rows df) \<longrightarrow>
      ''0|0'' \<in> set (map2 format_gt (fst (apply_get_gt vs ''h1'' map_tree_h1))
                               (fst (apply_get_gt vs ''h2'' map_tree_h2))) \<longrightarrow>
      genotype_columns vs df_map_h1 df_map_h2 df = Inl (RuntimeError Program_Bug_0_0))"
proof (intro conjI impI)
  assume "merge_haplotypes merged h1 h2 df_map_h1 df_map_h2 is_inv = Inr out"
  then have "no_0_0 out" by (rule merge_haplotypes_result_no_0_0)
  then show "\<forall>r \<in> set (frame_rows out). map_of (row_cells r) ''GT'' \<noteq> Some (Str ''0|0'')"
    by (simp add: no_0_0_def list_all_iff)
next
  assume "load_map_tree df_map_h1 Map.empty = Inr map_tree_h1"
    and "load_map_tree df_map_h2 Map.empty = Inr map_tree_h2"
    and "length vs = length (frame_rows df)"
    and "''0|0'' \<in> set (map2 format_gt (fst (apply_get_gt vs ''h1'' map_tree_h1))
                               (fst (apply_get_gt vs ''h2'' map_tree_h2)))"
  then show "genotype_columns vs df_map_h1 df_map_h2 df = Inl (RuntimeError Program_Bug_0_0)"
    by (rule genotype_columns_bug)
qed

text \<open>A run on the example data, and a frame on which the check of \<^verbatim>\<open>GT\<close> fires.\<close>

lemma ex_run:
  "merge_haplotypes ex_merged ex_h1 ex_h2 [(''chr1'', 50, 300)] [(''chr1'', 50, 300)] (Some False)
     = Inr ex_out"
  by code_simp

lemma ex_trees:
  "load_map_tree [(''chr1'', 50, 300)] Map.empty = Inr [''chr1'' \<mapsto> [Interval 50 300]]"
  by (simp add: dd_getitem_def setitem_slice_def)

lemma ex_bug:
  "map2 format_gt
     (fst (apply_get_gt [\<lparr>label = Str ''m3'', CHROM = ''chr1'', POS = 100, END = 200,
                           HAP = ''h3'', HAP_VARIANTS = ''v1''\<rparr>] ''h1''
              [''chr1'' \<mapsto> [Interval 50 300]]))
     (fst (apply_get_gt [\<lparr>label = Str ''m3'', CHROM = ''chr1'', POS = 100, END = 200,
                           HAP = ''h3'', HAP_VARIANTS = ''v1''\<rparr>] ''h2''
              [''chr1'' \<mapsto> [Interval 50 300]])) = [''0|0'']"
  by (simp add: get_gt_def dd_getitem_def overlap_def format_gt_def)

theorem merge_haplotypes_no_0_0_witness:
  "merge_haplotypes ex_merged ex_h1 ex_h2 [(''chr1'', 50, 300)] [(''chr1'', 50, 300)] (Some False)
     = Inr ex_out
   \<and> column_cells ''GT'' ex_out = [Some (Str ''1|0''), Some (Str ''1|1'')]
   \<and> genotype_columns
        [\<lparr>label = Str ''m3'', CHROM = ''chr1'', POS = 100, END = 200, HAP = ''h3'',
           HAP_VARIANTS = ''v1''\<rparr>]
        [(''chr1'', 50, 300)] [(''chr1'', 50, 300)]
        \<lparr>frame_columns = [''HAP'', ''HAP_VARIANTS''],
          frame_rows = [\<lparr>row_index = Str ''m3'', row_chrom = ''chr1'', row_pos = 100,
                          row_end = 200,
                          row_cells = [(''HAP'', Str ''h3''), (''HAP_VARIANTS'', Str ''v1'')]\<rparr>]\<rparr>
       = Inl (RuntimeError Program_Bug_0_0)"
  using merge_haplotypes_no_0_0 [of ex_merged ex_h1 ex_h2 "[(''chr1'', 50, 300)]"
      "[(''chr1'', 50, 300)]" "Some False" ex_out
      "[''chr1'' \<mapsto> [Interval 50 300]]" "[''chr1'' \<mapsto> [Interval 50 300]]"
      "[\<lparr>label = Str ''m3'', CHROM = ''chr1'', POS = 100, END = 200, HAP = ''h3'',
           HAP_VARIANTS = ''v1''\<rparr>]"
      "\<lparr>frame_columns = [''HAP'', ''HAP_VARIANTS''],
          frame_rows = [\<lparr>row_index = Str ''m3'', row_chrom = ''chr1'', row_pos = 100,
                          row_end = 200,
                          row_cells = [(''HAP'', Str ''h3''), (''HAP_VARIANTS'', Str ''v1'')]\<rparr>]\<rparr>"]
    ex_run ex_trees
  by (simp add: ex_bug column_cells_def ex_out_def del: apply_get_gt.simps)

text \<open>
  C3. Called with \<^verbatim>\<open>is_inv = None\<close>, \<^verbatim>\<open>merge_haplotypes\<close> does not detect the mode and does
  not merge: whatever the inputs, it raises \<^verbatim>\<open>UnboundLocalError\<close> at line 119, before
  \<^verbatim>\<open>merge_variants\<close> is called.
\<close>

theorem merge_haplotypes_autodetect_unbound:
  "merge_haplotypes merged h1 h2 df_map_h1 df_map_h2 None = Inl UnboundLocalError"
  by (simp add: merge_haplotypes_def)

subsection \<open>The \<^verbatim>\<open>Program bug\<close> error is not reachable\<close>


lemma not_bug_Inr [simp]: "not_bug (Inr x)"
  by (simp add: not_bug_def)

lemma not_bug_Inl [simp]: "not_bug (Inl e) \<longleftrightarrow> e \<noteq> RuntimeError Program_Bug_0_0"
  by (simp add: not_bug_def)

lemma not_bug_and_then:
  assumes "not_bug m" and "\<And>x. m = Inr x \<Longrightarrow> not_bug (f x)"
  shows "not_bug (and_then m f)"
  using assms by (cases m) (auto simp: not_bug_def and_then_def)

lemma not_bug_del_column [simp]: "not_bug (del_column c df)"
  by (simp add: del_column_def)

lemma not_bug_del_column_if_present [simp]: "not_bug (del_column_if_present c df)"
  by (simp add: del_column_if_present_def)

lemma not_bug_apply_each:
  assumes "\<And>x. not_bug (f x)"
  shows "not_bug (apply_each f xs)"
proof -
  have "apply_each f xs \<noteq> Inl (RuntimeError Program_Bug_0_0)"
  proof
    assume "apply_each f xs = Inl (RuntimeError Program_Bug_0_0)"
    from apply_each_Inl_elem [OF this] obtain x where "f x = Inl (RuntimeError Program_Bug_0_0)"
      by blast
    with assms [of x] show False by (simp add: not_bug_def)
  qed
  then show ?thesis by (simp add: not_bug_def)
qed

lemma not_bug_set_index_ID [simp]: "not_bug (set_index_ID df)"
  unfolding set_index_ID_def
  by (auto intro!: not_bug_and_then not_bug_apply_each split: option.splits)

lemma not_bug_check_is_inv [simp]: "not_bug (check_is_inv is_inv df)"
  by (simp add: check_is_inv_def Let_def)

lemma not_bug_restructure: "not_bug (restructure is_inv merged)"
  unfolding restructure_def by (intro not_bug_and_then) simp_all

lemma not_bug_normalize_column [simp]: "not_bug (normalize_column c df)"
  unfolding normalize_column_def
  by (auto intro!: not_bug_and_then not_bug_apply_each split: option.splits cell.splits)

lemma not_bug_normalize_column_if_present [simp]: "not_bug (normalize_column_if_present c df)"
  by (simp add: normalize_column_if_present_def)

lemma not_bug_load_hap_table [simp]: "not_bug (load_hap_table hf)"
  by (simp add: load_hap_table_def)

lemma not_bug_as_variant [simp]: "not_bug (as_variant r)"
  by (simp add: as_variant_def split: option.splits cell.splits)

lemma not_bug_val_per_hap [simp]: "not_bug (val_per_hap vs df_h1 df_h2 c d)"
  unfolding not_bug_def using val_per_hap_Inl by blast

lemma not_bug_reconcile_columns [simp]: "not_bug (reconcile_columns cs vs df_h1 df_h2 df)"
  by (induction cs arbitrary: df) (auto intro!: not_bug_and_then)

lemma not_bug_setitem_slice [simp]: "not_bug (setitem_slice tree b e)"
  by (simp add: setitem_slice_def)

lemma not_bug_load_map_tree [simp]: "not_bug (load_map_tree ms t)"
proof (induction ms arbitrary: t)
  case Nil
  then show ?case by simp
next
  case (Cons m ms)
  obtain chrom pos stop where m: "m = (chrom, pos, stop)" by (cases m)
  show ?case
    unfolding m load_map_tree.simps
    by (auto intro!: not_bug_and_then Cons.IH split: prod.splits)
qed

lemma not_bug_fill_empty: "not_bug (fill_empty is_inv df)"
  unfolding fill_empty_def by (intro not_bug_and_then) (auto intro!: not_bug_and_then)

lemma str_split_nonempty: "str_split c s \<noteq> []"
  by (induction s) (auto split: list.splits)

lemma hap_pairs_nonempty: "hap_pairs row \<noteq> []"
  by (simp add: hap_pairs_def str_split_nonempty)

lemma hap_value_label:
  "hap_value (df_dict df_h1 df_h2) col_name val = Inr v \<Longrightarrow> fst val = ''h1'' \<or> fst val = ''h2''"
  by (auto simp: hap_value_def df_dict_def split: option.splits if_splits)

lemma val_per_hap_labels_ok:
  assumes "val_per_hap vs df_h1 df_h2 col_name delim = Inr series"
  shows "labels_ok vs"
proof -
  have "''h1'' \<in> set (str_split (CHR '';'') (HAP row))
      \<or> ''h2'' \<in> set (str_split (CHR '';'') (HAP row))" if "row \<in> set vs" for row
  proof -
    from assms have L: "list_all2 (\<lambda>x y. row_value (df_dict df_h1 df_h2) col_name delim x = Inr y)
        (map (\<lambda>row. (label row, hap_pairs row)) vs) series"
      unfolding val_per_hap_def by (rule apply_each_Inr_D)
    from that obtain i where i: "i < length vs" "vs ! i = row"
      by (auto simp: in_set_conv_nth)
    from list_all2_nthD [OF L, of i] i obtain y where
      "row_value (df_dict df_h1 df_h2) col_name delim (label row, hap_pairs row) = Inr y"
      by simp
    then obtain vals where
      "apply_each (hap_value (df_dict df_h1 df_h2) col_name) (hap_pairs row) = Inr vals"
      by (auto simp: row_value_def join_values_def split: sum.splits)
    then have l: "list_all2 (\<lambda>x y. hap_value (df_dict df_h1 df_h2) col_name x = Inr y)
        (hap_pairs row) vals"
      by (rule apply_each_Inr_D)
    obtain val rest where p: "hap_pairs row = val # rest"
      using hap_pairs_nonempty [of row] by (cases "hap_pairs row") auto
    with l obtain v where "hap_value (df_dict df_h1 df_h2) col_name val = Inr v"
      by (auto simp: list_all2_Cons1)
    then have "fst val = ''h1'' \<or> fst val = ''h2''" by (rule hap_value_label)
    moreover from p have "fst val \<in> set (str_split (CHR '';'') (HAP row))"
      unfolding hap_pairs_def by (metis list.set_intros(1) prod.collapse set_zip_leftD)
    ultimately show ?thesis by auto
  qed
  then show ?thesis by (simp add: labels_ok_def list_all_iff)
qed

lemma format_gt_called:
  "format_gt ''1'' g \<noteq> ''0|0''" "format_gt g ''1'' \<noteq> ''0|0''"
  by (auto simp: format_gt_def append_eq_Cons_conv)

lemma apply_get_gt_no_0_0:
  "labels_ok vs \<Longrightarrow>
     ''0|0'' \<notin> set (map2 format_gt (fst (apply_get_gt vs ''h1'' t1)) (fst (apply_get_gt vs ''h2'' t2)))"
proof (induction vs arbitrary: t1 t2)
  case Nil
  then show ?case by simp
next
  case (Cons row vs)
  obtain g1 t1' where a: "get_gt row ''h1'' t1 = (g1, t1')" by (cases "get_gt row ''h1'' t1")
  obtain g2 t2' where b: "get_gt row ''h2'' t2 = (g2, t2')" by (cases "get_gt row ''h2'' t2")
  from Cons.prems have here: "''h1'' \<in> set (str_split (CHR '';'') (HAP row))
      \<or> ''h2'' \<in> set (str_split (CHR '';'') (HAP row))" and rest: "labels_ok vs"
    by (simp_all add: labels_ok_def)
  from a b here have "g1 = ''1'' \<or> g2 = ''1''"
    using get_gt_value [of row "''h1''" t1] get_gt_value [of row "''h2''" t2] by auto
  then have "format_gt g1 g2 \<noteq> ''0|0''"
    using format_gt_called by metis
  moreover obtain gs1 u1 where c: "apply_get_gt vs ''h1'' t1' = (gs1, u1)"
    by (cases "apply_get_gt vs ''h1'' t1'")
  moreover obtain gs2 u2 where d: "apply_get_gt vs ''h2'' t2' = (gs2, u2)"
    by (cases "apply_get_gt vs ''h2'' t2'")
  moreover from Cons.IH [OF rest, of t1' t2'] c d
  have "''0|0'' \<notin> set (map2 format_gt gs1 gs2)" by simp
  ultimately show ?case using a b by simp
qed

lemma set_column_cell:
  assumes "r \<in> set (frame_rows (set_column c vals df))"
  shows "\<exists>v \<in> set vals. map_of (row_cells r) c = Some v"
proof -
  from assms obtain r0 v where "(r0, v) \<in> set (zip (frame_rows df) vals)"
    and "r = r0\<lparr>row_cells := AList.update c v (row_cells r0)\<rparr>"
    by (auto simp: set_column_def)
  then show ?thesis
    by (auto simp: AList.update_conv' dest: set_zip_rightD)
qed

lemma not_bug_genotype_columns:
  assumes "labels_ok vs"
  shows "not_bug (genotype_columns vs df_map_h1 df_map_h2 df)"
proof -
  have c: "not_bug (check_gt (set_column ''GT''
              (map Str (map2 format_gt (fst (apply_get_gt vs ''h1'' t1))
                                       (fst (apply_get_gt vs ''h2'' t2)))) d))" for t1 t2 d
  proof -
    have "map_of (row_cells r) ''GT'' \<noteq> Some (Str ''0|0'')"
      if "r \<in> set (frame_rows (set_column ''GT''
              (map Str (map2 format_gt (fst (apply_get_gt vs ''h1'' t1))
                                       (fst (apply_get_gt vs ''h2'' t2)))) d))" for r
    proof -
      from set_column_cell [OF that] obtain g where
        "g \<in> set (map2 format_gt (fst (apply_get_gt vs ''h1'' t1)) (fst (apply_get_gt vs ''h2'' t2)))"
        "map_of (row_cells r) ''GT'' = Some (Str g)"
        by auto
      moreover from this(1) apply_get_gt_no_0_0 [OF assms, of t1 t2] have "g \<noteq> ''0|0''"
        by blast
      ultimately show ?thesis by simp
    qed
    then show ?thesis
      by (simp add: check_gt_def list_ex_iff)
  qed
  show ?thesis
    unfolding genotype_columns_def Let_def
    by (intro not_bug_and_then not_bug_load_map_tree c not_bug_del_column)
qed

lemma reconcile_columns_labels_ok:
  "reconcile_columns (c # cs) vs df_h1 df_h2 df = Inr df' \<Longrightarrow> labels_ok vs"
  by (auto elim!: and_then_InrE dest: val_per_hap_labels_ok)

lemma not_bug_fill_rows: "not_bug (fill_rows is_inv h1 h2 df_map_h1 df_map_h2 df)"
  unfolding fill_rows_def
  by (intro not_bug_and_then not_bug_genotype_columns)
     (auto simp del: reconcile_columns.simps intro!: not_bug_and_then not_bug_apply_each
        dest: reconcile_columns_labels_ok)

text \<open>
  So inside \<^verbatim>\<open>merge_haplotypes\<close> the check of lines 218 and 219 is a safeguard that never
  fires: \<^verbatim>\<open>"0|0"\<close> needs a row whose \<^verbatim>\<open>HAP\<close> has neither \<^verbatim>\<open>h1\<close> nor \<^verbatim>\<open>h2\<close>, and for such
  a row the first \<^verbatim>\<open>val_per_hap\<close> call has raised \<^verbatim>\<open>KeyError\<close> already.
\<close>

lemma merge_haplotypes_never_program_bug:
  "merge_haplotypes merged h1 h2 df_map_h1 df_map_h2 is_inv \<noteq> Inl (RuntimeError Program_Bug_0_0)"
proof (cases is_inv)
  case None
  then show ?thesis by (simp add: merge_haplotypes_def)
next
  case (Some flag)
  have "not_bug (merge_haplotypes merged h1 h2 df_map_h1 df_map_h2 (Some flag))"
    unfolding merge_haplotypes_def option.case
    by (intro not_bug_and_then not_bug_restructure)
       (simp add: not_bug_fill_rows not_bug_fill_empty)
  with Some show ?thesis by (simp add: not_bug_def)
qed


end
